theory Spec2Isabelle
  imports Complex_Main
begin

section \<open>Numbers and arrays of the spectrum pipeline\<close>

text \<open>
  The columns that pandas reads are NumPy arrays of 64-bit integers (a text column of
  integers) or of doubles. A double is a real number or one of the three special values of
  IEEE arithmetic; the two zeros are one value. An operation on finite doubles rounds its
  real result: the rounding function \<open>r\<close>, which gives the nearest double or an infinity, is a
  parameter of every operation, so nothing below depends on how a particular result is
  rounded. The special values follow IEEE: an invalid operation gives NaN, a non-zero number
  divided by zero gives an infinity, every ordered comparison with NaN is false and NaN is
  unequal to everything.
\<close>

datatype float64 = Finite real | PosInf | NegInf | NaN

type_synonym rounding = "real \<Rightarrow> float64"

fun f_neg :: "float64 \<Rightarrow> float64" where
  "f_neg (Finite a) = Finite (- a)"
| "f_neg PosInf = NegInf"
| "f_neg NegInf = PosInf"
| "f_neg NaN = NaN"

fun f_add :: "rounding \<Rightarrow> float64 \<Rightarrow> float64 \<Rightarrow> float64" where
  "f_add r NaN _ = NaN"
| "f_add r _ NaN = NaN"
| "f_add r PosInf NegInf = NaN"
| "f_add r NegInf PosInf = NaN"
| "f_add r PosInf _ = PosInf"
| "f_add r _ PosInf = PosInf"
| "f_add r NegInf _ = NegInf"
| "f_add r _ NegInf = NegInf"
| "f_add r (Finite a) (Finite b) = r (a + b)"

definition f_sub :: "rounding \<Rightarrow> float64 \<Rightarrow> float64 \<Rightarrow> float64" where
  "f_sub r a b = f_add r a (f_neg b)"

fun f_mul :: "rounding \<Rightarrow> float64 \<Rightarrow> float64 \<Rightarrow> float64" where
  "f_mul r NaN _ = NaN"
| "f_mul r _ NaN = NaN"
| "f_mul r (Finite a) (Finite b) = r (a * b)"
| "f_mul r PosInf (Finite b) = (if b = 0 then NaN else if 0 < b then PosInf else NegInf)"
| "f_mul r NegInf (Finite b) = (if b = 0 then NaN else if 0 < b then NegInf else PosInf)"
| "f_mul r (Finite a) PosInf = (if a = 0 then NaN else if 0 < a then PosInf else NegInf)"
| "f_mul r (Finite a) NegInf = (if a = 0 then NaN else if 0 < a then NegInf else PosInf)"
| "f_mul r PosInf PosInf = PosInf"
| "f_mul r NegInf NegInf = PosInf"
| "f_mul r PosInf NegInf = NegInf"
| "f_mul r NegInf PosInf = NegInf"

fun f_div :: "rounding \<Rightarrow> float64 \<Rightarrow> float64 \<Rightarrow> float64" where
  "f_div r NaN _ = NaN"
| "f_div r _ NaN = NaN"
| "f_div r (Finite a) (Finite b) =
     (if b = 0 then (if a = 0 then NaN else if 0 < a then PosInf else NegInf)
      else r (a / b))"
| "f_div r (Finite a) PosInf = Finite 0"
| "f_div r (Finite a) NegInf = Finite 0"
| "f_div r PosInf (Finite b) = (if b < 0 then NegInf else PosInf)"
| "f_div r NegInf (Finite b) = (if b < 0 then PosInf else NegInf)"
| "f_div r PosInf PosInf = NaN"
| "f_div r PosInf NegInf = NaN"
| "f_div r NegInf PosInf = NaN"
| "f_div r NegInf NegInf = NaN"

text \<open>
  \<^verbatim>\<open>10 ** w\<close> on a double. NumPy takes the power of a finite \<open>w\<close> from the platform's
  \<^verbatim>\<open>pow\<close>, which need not be the correctly rounded power: it is the parameter \<open>p\<close>.
\<close>

fun f_pow10 :: "rounding \<Rightarrow> float64 \<Rightarrow> float64" where
  "f_pow10 p (Finite a) = p a"
| "f_pow10 p PosInf = PosInf"
| "f_pow10 p NegInf = Finite 0"
| "f_pow10 p NaN = NaN"

fun f_le :: "float64 \<Rightarrow> float64 \<Rightarrow> bool" where
  "f_le NaN _ = False"
| "f_le _ NaN = False"
| "f_le (Finite a) (Finite b) = (a \<le> b)"
| "f_le NegInf _ = True"
| "f_le _ PosInf = True"
| "f_le PosInf _ = False"
| "f_le _ NegInf = False"

fun f_less :: "float64 \<Rightarrow> float64 \<Rightarrow> bool" where
  "f_less NaN _ = False"
| "f_less _ NaN = False"
| "f_less (Finite a) (Finite b) = (a < b)"
| "f_less PosInf _ = False"
| "f_less _ NegInf = False"
| "f_less NegInf _ = True"
| "f_less _ PosInf = True"

text \<open>\<^verbatim>\<open>a != b\<close> holds whenever either side is NaN.\<close>

definition f_ne :: "float64 \<Rightarrow> float64 \<Rightarrow> bool" where
  "f_ne a b = (a = NaN \<or> b = NaN \<or> a \<noteq> b)"

definition f_maximum :: "float64 \<Rightarrow> float64 \<Rightarrow> float64" where
  "f_maximum a b = (if a = NaN \<or> b = NaN then NaN else if f_le a b then b else a)"

text \<open>
  A 64-bit integer is an \<open>int\<close> between \<open>- 2 ^ 63\<close> and \<open>2 ^ 63 - 1\<close>; integer arithmetic on
  arrays wraps around silently. Converting an integer to a double rounds it.
\<close>

definition in_int64 :: "int \<Rightarrow> bool" where
  "in_int64 k = (- (2 ^ 63) \<le> k \<and> k < 2 ^ 63)"

definition wrap64 :: "int \<Rightarrow> int" where
  "wrap64 k = (k + 2 ^ 63) mod 2 ^ 64 - 2 ^ 63"

definition to_double :: "rounding \<Rightarrow> int \<Rightarrow> float64" where
  "to_double r k = r (real_of_int k)"

text \<open>
  An array with its dtype, a NumPy scalar (what indexing an array or reducing it gives), and
  a Python number (the redshift, and \<^verbatim>\<open>1 + redshift\<close>): a Python \<^verbatim>\<open>int\<close> is unbounded.
\<close>

datatype ndarray = Int64 "int list" | Float64 "float64 list"

datatype npscalar = NpInt int | NpFloat float64

datatype pynum = PyInt int | PyFloat float64

text \<open>The exceptions the model can raise, as Python names them.\<close>

datatype py_error =
    ValueError | TypeError | KeyError | AttributeError | IndexError | OverflowError
  | ExternalError string

fun arr_len :: "ndarray \<Rightarrow> nat" where
  "arr_len (Int64 ws) = length ws"
| "arr_len (Float64 xs) = length xs"

text \<open>The entries at the indices in \<open>K\<close>, in order.\<close>

fun arr_nths :: "ndarray \<Rightarrow> nat set \<Rightarrow> ndarray" where
  "arr_nths (Int64 ws) K = Int64 (nths ws K)"
| "arr_nths (Float64 xs) K = Float64 (nths xs K)"

text \<open>The array as doubles, which is how NumPy feeds an integer array to \<^verbatim>\<open>np.var\<close>.\<close>

fun arr_floats :: "rounding \<Rightarrow> ndarray \<Rightarrow> float64 list" where
  "arr_floats r (Int64 ws) = map (to_double r) ws"
| "arr_floats r (Float64 xs) = xs"

text \<open>\<^verbatim>\<open>a[i]\<close> on a one-dimensional array, for the indices 0 and 1 the code uses.\<close>

fun arr_getitem :: "ndarray \<Rightarrow> nat \<Rightarrow> py_error + npscalar" where
  "arr_getitem (Int64 ws) i = (if i < length ws then Inr (NpInt (ws ! i)) else Inl IndexError)"
| "arr_getitem (Float64 xs) i = (if i < length xs then Inr (NpFloat (xs ! i)) else Inl IndexError)"

text \<open>
  \<^verbatim>\<open>a[mask]\<close> with a boolean mask keeps the entries where the mask is true, in order; NumPy
  raises \<^verbatim>\<open>IndexError\<close> when the mask and the array differ in length.
\<close>

definition bool_index :: "'a list \<Rightarrow> bool list \<Rightarrow> py_error + 'a list" where
  "bool_index a msk =
     (if length msk \<noteq> length a then Inl IndexError
      else Inr (map fst (filter snd (zip a msk))))"

fun arr_bool_index :: "ndarray \<Rightarrow> bool list \<Rightarrow> py_error + ndarray" where
  "arr_bool_index (Int64 ws) msk =
     (case bool_index ws msk of Inl e \<Rightarrow> Inl e | Inr ws' \<Rightarrow> Inr (Int64 ws'))"
| "arr_bool_index (Float64 xs) msk =
     (case bool_index xs msk of Inl e \<Rightarrow> Inl e | Inr xs' \<Rightarrow> Inr (Float64 xs'))"

text \<open>
  \<^verbatim>\<open>np.max\<close>: the maximum reduction raises \<^verbatim>\<open>ValueError\<close> on an empty array and
  propagates NaN. \<^verbatim>\<open>np.max(a) < 5\<close> compares the scalar with the Python integer.
\<close>

fun np_max :: "ndarray \<Rightarrow> py_error + npscalar" where
  "np_max (Int64 []) = Inl ValueError"
| "np_max (Int64 (w # ws)) = Inr (NpInt (foldl max w ws))"
| "np_max (Float64 []) = Inl ValueError"
| "np_max (Float64 (x # xs)) = Inr (NpFloat (foldl f_maximum x xs))"

fun scalar_less :: "npscalar \<Rightarrow> int \<Rightarrow> bool" where
  "scalar_less (NpInt w) k = (w < k)"
| "scalar_less (NpFloat x) k = f_less x (Finite (real_of_int k))"

text \<open>
  \<^verbatim>\<open>10 ** a\<close>. On an integer array NumPy raises \<^verbatim>\<open>ValueError\<close> (integers to negative
  integer powers are not allowed) when an entry is negative, and otherwise computes the
  integer power, wrapping around.
\<close>

fun np_power10 :: "rounding \<Rightarrow> ndarray \<Rightarrow> py_error + ndarray" where
  "np_power10 p (Int64 ws) =
     (if \<exists>w\<in>set ws. w < 0 then Inl ValueError
      else Inr (Int64 (map (\<lambda>w. wrap64 (10 ^ nat w)) ws)))"
| "np_power10 p (Float64 xs) = Inr (Float64 (map (f_pow10 p) xs))"

text \<open>
  \<^verbatim>\<open>1 + z\<close> in Python, and \<^verbatim>\<open>float(k)\<close>, which raises \<^verbatim>\<open>OverflowError\<close> for an integer
  beyond the doubles.
\<close>

fun py_one_plus :: "rounding \<Rightarrow> pynum \<Rightarrow> pynum" where
  "py_one_plus r (PyInt k) = PyInt (1 + k)"
| "py_one_plus r (PyFloat f) = PyFloat (f_add r (Finite 1) f)"

fun py_float :: "rounding \<Rightarrow> pynum \<Rightarrow> py_error + float64" where
  "py_float r (PyFloat f) = Inr f"
| "py_float r (PyInt k) =
     (case r (real_of_int k) of Finite d \<Rightarrow> Inr (Finite d) | _ \<Rightarrow> Inl OverflowError)"

text \<open>
  An array divided and multiplied by a Python number, as NumPy 2 does it. Division always
  gives doubles. A Python integer takes the dtype of the array: with an integer array it
  must fit 64 bits (\<^verbatim>\<open>OverflowError\<close> otherwise) and the product is the wrapped integer
  product; with an array of doubles it is converted to a double. A Python float turns an
  integer array into doubles.
\<close>

fun np_true_divide :: "rounding \<Rightarrow> ndarray \<Rightarrow> pynum \<Rightarrow> py_error + ndarray" where
  "np_true_divide r (Float64 xs) s =
     (case py_float r s of
        Inl e \<Rightarrow> Inl e
      | Inr d \<Rightarrow> Inr (Float64 (map (\<lambda>x. f_div r x d) xs)))"
| "np_true_divide r (Int64 ws) (PyInt k) =
     (if in_int64 k
      then Inr (Float64 (map (\<lambda>w. f_div r (to_double r w) (to_double r k)) ws))
      else Inl OverflowError)"
| "np_true_divide r (Int64 ws) (PyFloat f) =
     Inr (Float64 (map (\<lambda>w. f_div r (to_double r w) f) ws))"

fun np_multiply :: "rounding \<Rightarrow> ndarray \<Rightarrow> pynum \<Rightarrow> py_error + ndarray" where
  "np_multiply r (Float64 xs) s =
     (case py_float r s of
        Inl e \<Rightarrow> Inl e
      | Inr d \<Rightarrow> Inr (Float64 (map (\<lambda>x. f_mul r x d) xs)))"
| "np_multiply r (Int64 ws) (PyInt k) =
     (if in_int64 k then Inr (Int64 (map (\<lambda>w. wrap64 (w * k)) ws)) else Inl OverflowError)"
| "np_multiply r (Int64 ws) (PyFloat f) =
     Inr (Float64 (map (\<lambda>w. f_mul r (to_double r w) f) ws))"

text \<open>
  \<^verbatim>\<open>a >= s\<close> and \<^verbatim>\<open>a <= s\<close> for a NumPy scalar \<open>s\<close>: integers are compared as integers,
  doubles as doubles, and a mixed pair after the integer is converted to a double.
\<close>

fun arr_ge :: "rounding \<Rightarrow> ndarray \<Rightarrow> npscalar \<Rightarrow> bool list" where
  "arr_ge r (Int64 ws) (NpInt v) = map (\<lambda>w. v \<le> w) ws"
| "arr_ge r (Int64 ws) (NpFloat y) = map (\<lambda>w. f_le y (to_double r w)) ws"
| "arr_ge r (Float64 xs) (NpInt v) = map (\<lambda>x. f_le (to_double r v) x) xs"
| "arr_ge r (Float64 xs) (NpFloat y) = map (\<lambda>x. f_le y x) xs"

fun arr_le :: "rounding \<Rightarrow> ndarray \<Rightarrow> npscalar \<Rightarrow> bool list" where
  "arr_le r (Int64 ws) (NpInt v) = map (\<lambda>w. w \<le> v) ws"
| "arr_le r (Int64 ws) (NpFloat y) = map (\<lambda>w. f_le (to_double r w) y) ws"
| "arr_le r (Float64 xs) (NpInt v) = map (\<lambda>x. f_le x (to_double r v)) xs"
| "arr_le r (Float64 xs) (NpFloat y) = map (\<lambda>x. f_le x y) xs"

text \<open>\<^verbatim>\<open>a != 0\<close>.\<close>

fun arr_ne0 :: "ndarray \<Rightarrow> bool list" where
  "arr_ne0 (Int64 ws) = map (\<lambda>w. w \<noteq> 0) ws"
| "arr_ne0 (Float64 xs) = map (\<lambda>x. f_ne x (Finite 0)) xs"

section \<open>The loaded table, the libraries and the loader\<close>

text \<open>
  A pandas \<^verbatim>\<open>DataFrame\<close>: the named columns in table order. pandas keeps all columns of a
  frame at one length, which \<open>frame_ok\<close> states.
\<close>

type_synonym dataframe = "(string \<times> ndarray) list"

definition frame_ok :: "dataframe \<Rightarrow> bool" where
  "frame_ok df =
     (case df of [] \<Rightarrow> True
      | c # cs \<Rightarrow> list_all (\<lambda>d. arr_len (snd d) = arr_len (snd c)) cs)"

text \<open>\<^verbatim>\<open>df[key]\<close> raises \<^verbatim>\<open>KeyError\<close> for a missing column; \<^verbatim>\<open>key in df.columns\<close>.\<close>

definition df_getitem :: "dataframe \<Rightarrow> string \<Rightarrow> py_error + ndarray" where
  "df_getitem df key = (case map_of df key of None \<Rightarrow> Inl KeyError | Some c \<Rightarrow> Inr c)"

definition df_has_column :: "dataframe \<Rightarrow> string \<Rightarrow> bool" where
  "df_has_column df key = (map_of df key \<noteq> None)"

text \<open>\<^verbatim>\<open>s.endswith(suffix)\<close>.\<close>

definition endswith :: "string \<Rightarrow> string \<Rightarrow> bool" where
  "endswith s suf = (length suf \<le> length s \<and> drop (length s - length suf) s = suf)"

text \<open>
  What the module calls and does not define. \<open>read_txt\<close> and \<open>read_fits\<close> stand for the two
  parsers (\<^verbatim>\<open>pandas.read_csv\<close> and \<^verbatim>\<open>astropy.table.Table.read\<close> followed by the renaming
  of columns): they read a file, so their result is a parameter of the model, either the
  frame or the exception the parser raised. \<open>fp99\<close> and \<open>ext_remove\<close> are the two functions
  of the \<^verbatim>\<open>extinction\<close> package. The last three are the arithmetic of the platform:
  \<open>rnd\<close> rounds a real to a double, \<open>pow10\<close> is \<^verbatim>\<open>pow(10, x)\<close>, and \<open>add_reduce\<close> is NumPy's
  sum of a non-empty array of doubles, whose order of additions NumPy chooses.
\<close>

record extern =
  read_txt :: "string \<Rightarrow> int \<Rightarrow> string \<Rightarrow> py_error + dataframe"
  read_fits :: "string \<Rightarrow> py_error + dataframe"
  fp99 :: "ndarray \<Rightarrow> float64 \<Rightarrow> float64 \<Rightarrow> ndarray"
  ext_remove :: "ndarray \<Rightarrow> ndarray \<Rightarrow> ndarray"
  rnd :: rounding
  pow10 :: rounding
  add_reduce :: "float64 list \<Rightarrow> float64"

text \<open>\<^verbatim>\<open>np.sum\<close> of doubles: the sum of no element is 0.\<close>

definition np_sum :: "extern \<Rightarrow> float64 list \<Rightarrow> float64" where
  "np_sum ex xs = (if xs = [] then Finite 0 else add_reduce ex xs)"

text \<open>
  \<^verbatim>\<open>np.var\<close> with its default \<^verbatim>\<open>ddof=0\<close>, as NumPy computes it: the sum of the elements
  divided by their count is the mean, and the sum of the squared differences from the mean
  divided by the count is the variance. It raises nothing: on an empty array both
  divisions are \<^verbatim>\<open>0/0\<close>.
\<close>

definition np_var :: "extern \<Rightarrow> float64 list \<Rightarrow> float64" where
  "np_var ex xs =
     (let rcount = Finite (real (length xs));
          arrmean = f_div (rnd ex) (np_sum ex xs) rcount;
          x = map (\<lambda>a. f_sub (rnd ex) a arrmean) xs;
          x2 = map (\<lambda>d. f_mul (rnd ex) d d) x
      in f_div (rnd ex) (np_sum ex x2) rcount)"

text \<open>
  \<^verbatim>\<open>read_data\<close>: an \<^verbatim>\<open>if\<close>/\<^verbatim>\<open>elif\<close> without \<^verbatim>\<open>else\<close>. When neither test holds the function
  falls off its end and returns Python's \<^verbatim>\<open>None\<close>, here \<open>Inr None\<close>.
\<close>

definition read_data :: "extern \<Rightarrow> string \<Rightarrow> int \<Rightarrow> string \<Rightarrow> py_error + dataframe option" where
  "read_data ex file_path skiprows separator =
     (if endswith file_path ''.txt'' then
        (case read_txt ex file_path skiprows separator of
           Inl e \<Rightarrow> Inl e | Inr df \<Rightarrow> Inr (Some df))
      else if endswith file_path ''.fits'' then
        (case read_fits ex file_path of
           Inl e \<Rightarrow> Inl e | Inr df \<Rightarrow> Inr (Some df))
      else Inr None)"

section \<open>The Spectrum object and its pipeline\<close>

text \<open>
  The module \<^verbatim>\<open>config\<close> is imported by \<^verbatim>\<open>Spectrum.py\<close> and is shared by every
  construction in a process. Its value \<^verbatim>\<open>IVAR_INTERVALS\<close> is a NumPy array (the code
  multiplies it by a number and reads its entries 0 and 1); its content is a parameter of
  the model, and the module is threaded through the constructor as state.
\<close>

record config =
  IVAR_INTERVALS :: ndarray

text \<open>
  The attributes of a \<^verbatim>\<open>Spectrum\<close>. \<open>ivar\<close> is \<open>None\<close> until \<^verbatim>\<open>__init__\<close> assigns it.
\<close>

record spectrum =
  file_path :: string
  name :: string
  data :: dataframe
  wavelength :: ndarray
  flux :: ndarray
  redshift :: pynum
  rest_frame :: bool
  linearize_wavelength :: bool
  a_v_extinction :: "float64 option"
  to_rest_frame :: bool
  ivar :: "ndarray option"

text \<open>
  \<^verbatim>\<open>_linearize_wavelength\<close>. \<^verbatim>\<open>np.max\<close> is evaluated only when the flag is set; the
  comparison with 5 is false for NaN.
\<close>

definition Spectrum_linearize_wavelength :: "extern \<Rightarrow> spectrum \<Rightarrow> py_error + spectrum" where
  "Spectrum_linearize_wavelength ex self =
     (if linearize_wavelength self then
        (case np_max (wavelength self) of
           Inl e \<Rightarrow> Inl e
         | Inr m \<Rightarrow>
             if scalar_less m 5
             then (case np_power10 (pow10 ex) (wavelength self) of
                     Inl e \<Rightarrow> Inl e
                   | Inr wl \<Rightarrow> Inr (self\<lparr>wavelength := wl\<rparr>))
             else Inr self)
      else Inr self)"

text \<open>
  \<^verbatim>\<open>_correct_extinction\<close>. \<^verbatim>\<open>self.wavelength\<close> is the \<^verbatim>\<open>numpy.ndarray\<close> that
  \<^verbatim>\<open>.values\<close> returned in \<^verbatim>\<open>__init__\<close> (or the \<^verbatim>\<open>ndarray\<close> that \<^verbatim>\<open>10 ** \<close> made of it),
  and \<^verbatim>\<open>to_numpy\<close> is a method of pandas objects that \<^verbatim>\<open>ndarray\<close> does not have: the
  attribute lookup raises \<^verbatim>\<open>AttributeError\<close>. The method assigns no attribute of
  \<^verbatim>\<open>self\<close>; the de-reddened flux is its return value (\<open>None\<close> when no extinction was
  given), so the model returns that value and no new object.
\<close>

definition ndarray_to_numpy :: "ndarray \<Rightarrow> py_error + ndarray" where
  "ndarray_to_numpy a = Inl AttributeError"

definition Spectrum_correct_extinction ::
  "extern \<Rightarrow> spectrum \<Rightarrow> float64 \<Rightarrow> py_error + ndarray option" where
  "Spectrum_correct_extinction ex self r_v_extinction =
     (case a_v_extinction self of
        None \<Rightarrow> Inr None
      | Some a_v \<Rightarrow>
          (case ndarray_to_numpy (wavelength self) of
             Inl e \<Rightarrow> Inl e
           | Inr w \<Rightarrow>
               (let extinction_curve = fp99 ex w a_v r_v_extinction
                in Inr (Some (ext_remove ex extinction_curve (flux self))))))"

text \<open>
  \<^verbatim>\<open>_to_rest_frame\<close>: array by number, elementwise. The wavelength is assigned before the
  flux is computed; an exception in either leaves no object.
\<close>

definition Spectrum_to_rest_frame :: "extern \<Rightarrow> spectrum \<Rightarrow> py_error + spectrum" where
  "Spectrum_to_rest_frame ex self =
     (if to_rest_frame self then
        (case np_true_divide (rnd ex) (wavelength self)
                (py_one_plus (rnd ex) (redshift self)) of
           Inl e \<Rightarrow> Inl e
         | Inr wl \<Rightarrow>
        (case np_multiply (rnd ex) (flux self) (py_one_plus (rnd ex) (redshift self)) of
           Inl e \<Rightarrow> Inl e
         | Inr fl \<Rightarrow> Inr (self\<lparr>wavelength := wl, flux := fl\<rparr>)))
      else Inr self)"

text \<open>
  \<^verbatim>\<open>_calculate_ivar\<close>. The assignment to \<^verbatim>\<open>config.IVAR_INTERVALS\<close> rebinds the attribute
  of the shared module, so the function returns the module next to its result, also when
  it raises after the assignment. \<^verbatim>\<open>1 / np.var(...)\<close> is a division of doubles, which
  raises nothing.
\<close>

definition Spectrum_calculate_ivar ::
  "extern \<Rightarrow> config \<Rightarrow> spectrum \<Rightarrow> (py_error + ndarray) \<times> config" where
  "Spectrum_calculate_ivar ex cfg self =
     (if df_has_column (data self) ''ivar'' then (df_getitem (data self) ''ivar'', cfg)
      else
        (case (if \<not> rest_frame self
               then np_multiply (rnd ex) (IVAR_INTERVALS cfg)
                      (py_one_plus (rnd ex) (redshift self))
               else Inr (IVAR_INTERVALS cfg)) of
           Inl e \<Rightarrow> (Inl e, cfg)
         | Inr intervals \<Rightarrow>
        (let cfg1 = cfg\<lparr>IVAR_INTERVALS := intervals\<rparr>
         in case arr_getitem intervals 0 of
              Inl e \<Rightarrow> (Inl e, cfg1)
            | Inr lo \<Rightarrow>
           (case arr_getitem intervals 1 of
              Inl e \<Rightarrow> (Inl e, cfg1)
            | Inr hi \<Rightarrow>
           (case arr_bool_index (flux self)
                   (map2 (\<and>) (arr_ge (rnd ex) (wavelength self) lo)
                              (arr_le (rnd ex) (wavelength self) hi)) of
              Inl e \<Rightarrow> (Inl e, cfg1)
            | Inr continuum \<Rightarrow>
                (let iv = f_div (rnd ex) (Finite 1)
                            (np_var ex (arr_floats (rnd ex) continuum))
                 in (Inr (Float64 (replicate (arr_len (wavelength self)) iv)), cfg1)))))))"

text \<open>
  \<^verbatim>\<open>_mask_dead_pixels\<close>: the mask is computed once from \<^verbatim>\<open>self.ivar\<close> and applied to
  flux, ivar and wavelength, in this order.
\<close>

definition Spectrum_mask_dead_pixels :: "spectrum \<Rightarrow> py_error + spectrum" where
  "Spectrum_mask_dead_pixels self =
     (case ivar self of
        None \<Rightarrow> Inl AttributeError
      | Some iv \<Rightarrow>
          (let dead_pixel_mask = arr_ne0 iv
           in case arr_bool_index (flux self) dead_pixel_mask of
                Inl e \<Rightarrow> Inl e
              | Inr fl \<Rightarrow>
             (case arr_bool_index iv dead_pixel_mask of
                Inl e \<Rightarrow> Inl e
              | Inr iv' \<Rightarrow>
             (case arr_bool_index (wavelength self) dead_pixel_mask of
                Inl e \<Rightarrow> Inl e
              | Inr wl \<Rightarrow>
                  Inr (self\<lparr>flux := fl, ivar := Some iv', wavelength := wl\<rparr>)))))"

text \<open>
  \<^verbatim>\<open>file_path.split('/')[-1].split('.')[0]\<close>: the text after the last slash, up to its
  first dot.
\<close>

definition stem :: "string \<Rightarrow> string" where
  "stem p = takeWhile (\<lambda>c. c \<noteq> CHR ''.'') (rev (takeWhile (\<lambda>c. c \<noteq> CHR ''/'') (rev p)))"

text \<open>
  \<^verbatim>\<open>Spectrum.__init__\<close>. Subscripting the \<^verbatim>\<open>None\<close> that \<^verbatim>\<open>read_data\<close> may return raises
  \<^verbatim>\<open>TypeError\<close>. The value that \<^verbatim>\<open>_correct_extinction\<close> returns is dropped; its default
  argument is the double nearest to 3.1. The result is the constructed object or the
  exception, and the \<^verbatim>\<open>config\<close> module as the call leaves it.
\<close>

definition Spectrum_init ::
  "extern \<Rightarrow> config \<Rightarrow> string \<Rightarrow> pynum \<Rightarrow> float64 option \<Rightarrow> bool \<Rightarrow> int \<Rightarrow> string \<Rightarrow> bool
     \<Rightarrow> (py_error + spectrum) \<times> config" where
  "Spectrum_init ex cfg path z a_v linearize skiprows separator to_rf =
     (case read_data ex path skiprows separator of
        Inl e \<Rightarrow> (Inl e, cfg)
      | Inr None \<Rightarrow> (Inl TypeError, cfg)
      | Inr (Some df) \<Rightarrow>
     (case df_getitem df ''lambda'' of
        Inl e \<Rightarrow> (Inl e, cfg)
      | Inr wl \<Rightarrow>
     (case df_getitem df ''flux'' of
        Inl e \<Rightarrow> (Inl e, cfg)
      | Inr fl \<Rightarrow>
     (let self = \<lparr>file_path = path, name = stem path, data = df, wavelength = wl,
                   flux = fl, redshift = z, rest_frame = to_rf,
                   linearize_wavelength = linearize, a_v_extinction = a_v,
                   to_rest_frame = to_rf, ivar = None\<rparr>
      in case Spectrum_linearize_wavelength ex self of
           Inl e \<Rightarrow> (Inl e, cfg)
         | Inr self1 \<Rightarrow>
        (case Spectrum_correct_extinction ex self1 (rnd ex (31 / 10)) of
           Inl e \<Rightarrow> (Inl e, cfg)
         | Inr _ \<Rightarrow>
        (case Spectrum_to_rest_frame ex self1 of
           Inl e \<Rightarrow> (Inl e, cfg)
         | Inr self3 \<Rightarrow>
        (case Spectrum_calculate_ivar ex cfg self3 of
           (Inl e, cfg') \<Rightarrow> (Inl e, cfg')
         | (Inr iv, cfg') \<Rightarrow>
        (case Spectrum_mask_dead_pixels (self3\<lparr>ivar := Some iv\<rparr>) of
           Inl e \<Rightarrow> (Inl e, cfg')
         | Inr self5 \<Rightarrow> (Inr self5, cfg')))))))))"

text \<open>
  The part of \<^verbatim>\<open>__init__\<close> before it calls \<^verbatim>\<open>_calculate_ivar\<close> (lines 20 to 33): the
  object on which the inverse variance is computed, or the exception raised before.
\<close>

definition Spectrum_before_ivar ::
  "extern \<Rightarrow> string \<Rightarrow> pynum \<Rightarrow> float64 option \<Rightarrow> bool \<Rightarrow> int \<Rightarrow> string \<Rightarrow> bool
     \<Rightarrow> py_error + spectrum" where
  "Spectrum_before_ivar ex path z a_v linearize skiprows separator to_rf =
     (case read_data ex path skiprows separator of
        Inl e \<Rightarrow> Inl e
      | Inr None \<Rightarrow> Inl TypeError
      | Inr (Some df) \<Rightarrow>
     (case df_getitem df ''lambda'' of
        Inl e \<Rightarrow> Inl e
      | Inr wl \<Rightarrow>
     (case df_getitem df ''flux'' of
        Inl e \<Rightarrow> Inl e
      | Inr fl \<Rightarrow>
     (let self = \<lparr>file_path = path, name = stem path, data = df, wavelength = wl,
                   flux = fl, redshift = z, rest_frame = to_rf,
                   linearize_wavelength = linearize, a_v_extinction = a_v,
                   to_rest_frame = to_rf, ivar = None\<rparr>
      in case Spectrum_linearize_wavelength ex self of
           Inl e \<Rightarrow> Inl e
         | Inr self1 \<Rightarrow>
        (case Spectrum_correct_extinction ex self1 (rnd ex (31 / 10)) of
           Inl e \<Rightarrow> Inl e
         | Inr _ \<Rightarrow> Spectrum_to_rest_frame ex self1)))))"

section \<open>Stated properties and sample inputs\<close>

text \<open>
  The arrays of an object are aligned when wavelength and flux have one length and ivar,
  once it is assigned, has that length too.
\<close>

definition aligned :: "spectrum \<Rightarrow> bool" where
  "aligned self =
     (arr_len (wavelength self) = arr_len (flux self) \<and>
      (case ivar self of None \<Rightarrow> True | Some iv \<Rightarrow> arr_len iv = arr_len (wavelength self)))"

text \<open>
  The interval that \<^verbatim>\<open>_calculate_ivar\<close> compares the wavelengths with: the configured one
  in the rest frame, and otherwise its product with \<^verbatim>\<open>1 + redshift\<close>.
\<close>

definition window_bounds :: "extern \<Rightarrow> config \<Rightarrow> spectrum \<Rightarrow> py_error + ndarray" where
  "window_bounds ex cfg self =
     (if rest_frame self then Inr (IVAR_INTERVALS cfg)
      else np_multiply (rnd ex) (IVAR_INTERVALS cfg) (py_one_plus (rnd ex) (redshift self)))"

text \<open>
  The flux samples, as doubles, whose wavelength lies between \<open>lo\<close> and \<open>hi\<close>, both
  included.
\<close>

definition continuum_window :: "extern \<Rightarrow> spectrum \<Rightarrow> npscalar \<Rightarrow> npscalar \<Rightarrow> float64 list" where
  "continuum_window ex self lo hi =
     arr_floats (rnd ex)
       (arr_nths (flux self)
          {i. i < arr_len (wavelength self) \<and>
              arr_ge (rnd ex) (wavelength self) lo ! i \<and>
              arr_le (rnd ex) (wavelength self) hi ! i})"



text \<open>
  Sample tables. A text file of integers gives integer columns: five rows with a varying
  flux, six rows of which four have a wavelength from 2 to 6, and five rows with a constant
  flux. A binary table gives columns of doubles: seven rows with an \<^verbatim>\<open>ivar\<close> column whose
  pixels 2 and 5 are zero.
\<close>

definition sample_frame :: dataframe where
  "sample_frame = [(''lambda'', Int64 [1, 2, 3, 4, 5]), (''flux'', Int64 [1, 2, 1, 2, 3])]"


definition flat_frame :: dataframe where
  "flat_frame = [(''lambda'', Int64 [1, 2, 3, 4, 5]), (''flux'', Int64 [1, 1, 1, 1, 1])]"

definition ivar_frame :: dataframe where
  "ivar_frame =
     [(''lambda'', Float64 (map Finite [4000, 4001, 4002, 4003, 4004, 4005, 4006])),
      (''flux'', Float64 (map Finite [10, 11, 12, 13, 14, 15, 16])),
      (''ivar'', Float64 [Finite 1, Finite 2, Finite 0, NaN, PosInf, Finite 0, Finite 3])]"

text \<open>
  A library for the samples. Its parsers find the given table in every file. Its arithmetic
  is exact, which is the arithmetic of the platform on the samples: they are chosen so that
  every value computed from them is a double and no operation has to round.
\<close>

definition exact_sum :: "float64 list \<Rightarrow> float64" where
  "exact_sum xs = foldl (f_add Finite) (Finite 0) xs"

definition lib_of :: "dataframe \<Rightarrow> extern" where
  "lib_of df =
     \<lparr>read_txt = (\<lambda>p k sep. Inr df), read_fits = (\<lambda>p. Inr df),
      fp99 = (\<lambda>w a r. w), ext_remove = (\<lambda>c f. f),
      rnd = Finite, pow10 = (\<lambda>a. Finite (10 powr a)), add_reduce = exact_sum\<rparr>"

definition default_separator :: string where
  "default_separator = [CHR 0x09]"

definition sample_config :: config where
  "sample_config = \<lparr>IVAR_INTERVALS = Int64 [0, 10]\<rparr>"

definition far_config :: config where
  "far_config = \<lparr>IVAR_INTERVALS = Int64 [100, 200]\<rparr>"

definition narrow_config :: config where
  "narrow_config = \<lparr>IVAR_INTERVALS = Int64 [1, 3]\<rparr>"

definition scaled_config :: config where
  "scaled_config = \<lparr>IVAR_INTERVALS = Int64 [2, 6]\<rparr>"

text \<open>
  Objects. \<open>sample_pre\<close> is the sample file's object after the rest-frame stage at redshift
  0, and \<open>sample_final\<close> the constructed one for the interval from 2 to 6; \<open>flat_pre\<close> is the
  same for the constant flux; \<open>obs_px\<close> is the six-row table left in the observed frame at
  redshift 1. \<open>px\<close> holds the binary table. The last four are objects as delinearization and the
  rest-frame stage may receive them.
\<close>

definition sample_pre :: spectrum where
  "sample_pre =
     \<lparr>file_path = ''examples/sample.txt'', name = ''sample'', data = sample_frame,
      wavelength = Float64 (map Finite [1, 2, 3, 4, 5]), flux = Int64 [1, 2, 1, 2, 3],
      redshift = PyInt 0, rest_frame = True, linearize_wavelength = False,
      a_v_extinction = None, to_rest_frame = True, ivar = None\<rparr>"

definition sample_final :: spectrum where
  "sample_final =
     sample_pre\<lparr>ivar := Some (Float64 [Finite 2, Finite 2, Finite 2, Finite 2, Finite 2])\<rparr>"

definition flat_pre :: spectrum where
  "flat_pre =
     \<lparr>file_path = ''examples/flat.txt'', name = ''flat'', data = flat_frame,
      wavelength = Float64 (map Finite [1, 2, 3, 4, 5]), flux = Int64 [1, 1, 1, 1, 1],
      redshift = PyInt 0, rest_frame = True, linearize_wavelength = False,
      a_v_extinction = None, to_rest_frame = True, ivar = None\<rparr>"


definition px :: spectrum where
  "px =
     \<lparr>file_path = ''examples/sdss.fits'', name = ''sdss'', data = ivar_frame,
      wavelength = Float64 (map Finite [4000, 4001, 4002, 4003, 4004, 4005, 4006]),
      flux = Float64 (map Finite [10, 11, 12, 13, 14, 15, 16]),
      redshift = PyInt 1, rest_frame = True, linearize_wavelength = True,
      a_v_extinction = None, to_rest_frame = True,
      ivar = Some (Float64 [Finite 1, Finite 2, Finite 0, NaN, PosInf, Finite 0, Finite 3])\<rparr>"

definition log_px :: spectrum where
  "log_px =
     \<lparr>file_path = ''examples/log.fits'', name = ''log'', data = [],
      wavelength = Float64 (map Finite [3, 4]), flux = Float64 (map Finite [7, 9]),
      redshift = PyFloat (Finite 1), rest_frame = False, linearize_wavelength = True,
      a_v_extinction = None, to_rest_frame = False, ivar = None\<rparr>"

definition int_log_px :: spectrum where
  "int_log_px = log_px\<lparr>wavelength := Int64 [3, 4]\<rparr>"

definition neg_px :: spectrum where
  "neg_px = log_px\<lparr>wavelength := Int64 [- 1, 2]\<rparr>"

definition wrap_px :: spectrum where
  "wrap_px =
     \<lparr>file_path = ''examples/bright.txt'', name = ''bright'', data = [],
      wavelength = Int64 [4000, 4002], flux = Int64 [5000000000000000000, 3],
      redshift = PyInt 1, rest_frame = True, linearize_wavelength = False,
      a_v_extinction = None, to_rest_frame = True, ivar = None\<rparr>"

section \<open>Facts about the array operations\<close>

lemma f_ne_zero: "f_ne v (Finite 0) = (v \<noteq> Finite 0)"
  by (auto simp: f_ne_def)

lemma wrap64_id: "in_int64 k \<Longrightarrow> wrap64 k = k"
  by (simp add: in_int64_def wrap64_def)

lemma select_nths:
  "length m = length xs \<Longrightarrow>
   map fst (filter snd (zip xs m)) = nths xs {i. i < length m \<and> m ! i}"
proof (induction m xs rule: list_induct2)
  case Nil
  then show ?case by simp
next
  case (Cons b m x xs)
  have s: "{j. Suc j \<in> {i. i < length (b # m) \<and> (b # m) ! i}} = {i. i < length m \<and> m ! i}"
    by auto
  show ?case using Cons.IH
    by (simp add: nths_Cons s)
qed

lemma bool_index_nths:
  "length m = length xs \<Longrightarrow> bool_index xs m = Inr (nths xs {i. i < length m \<and> m ! i})"
  by (simp add: bool_index_def select_nths)

lemma arr_bool_index_nths:
  "length m = arr_len a \<Longrightarrow> arr_bool_index a m = Inr (arr_nths a {i. i < length m \<and> m ! i})"
  by (cases a) (simp_all add: bool_index_nths)

lemma bool_index_result_length:
  "bool_index a m = Inr r \<Longrightarrow> length r = length (filter (\<lambda>b. b) m)"
proof -
  have "length m = length a \<Longrightarrow> length (filter snd (zip a m)) = length (filter (\<lambda>b. b) m)"
    by (induction m a rule: list_induct2) auto
  then show "bool_index a m = Inr r \<Longrightarrow> length r = length (filter (\<lambda>b. b) m)"
    by (auto simp: bool_index_def split: if_splits)
qed

lemma arr_bool_index_result_length:
  "arr_bool_index a m = Inr a' \<Longrightarrow> arr_len a' = length (filter (\<lambda>b. b) m)"
  by (cases a) (auto dest: bool_index_result_length split: sum.splits)

lemma length_arr_ne0: "length (arr_ne0 a) = arr_len a"
  by (cases a) simp_all

lemma length_arr_ge: "length (arr_ge r a s) = arr_len a"
  by (cases a; cases s) simp_all

lemma length_arr_le: "length (arr_le r a s) = arr_len a"
  by (cases a; cases s) simp_all

lemma arr_len_nths_all: "\<forall>i<arr_len a. i \<in> K \<Longrightarrow> arr_nths a K = a"
  by (cases a) (simp_all add: nths_all)

lemma nonzero_indices:
  "{i. i < arr_len iv \<and> arr_ne0 iv ! i} =
   {i. i < arr_len iv \<and> (case iv of Int64 ws \<Rightarrow> ws ! i \<noteq> 0 | Float64 xs \<Rightarrow> xs ! i \<noteq> Finite 0)}"
  by (cases iv) (auto simp: f_ne_zero)

lemma window_indices:
  "{i. i < arr_len a \<and> map2 (\<and>) (arr_ge r a lo) (arr_le r a hi) ! i} =
   {i. i < arr_len a \<and> arr_ge r a lo ! i \<and> arr_le r a hi ! i}"
  by (auto simp: length_arr_ge length_arr_le)

lemma foldl_max_fold: "foldl max (w::int) ws = fold max ws w"
  by (induction ws arbitrary: w) (simp_all add: max.commute)

lemma np_max_Int64:
  "np_max (Int64 ws) = (if ws = [] then Inl ValueError else Inr (NpInt (Max (set ws))))"
proof (cases ws)
  case Nil
  then show ?thesis by simp
next
  case (Cons a list)
  show ?thesis
    using Max.set_eq_fold[of a list] by (simp add: Cons foldl_max_fold)
qed

lemma foldl_f_maximum_Finite:
  "foldl f_maximum (Finite x) (map Finite xs) = Finite (fold max xs x)"
  by (induction xs arbitrary: x) (simp_all add: f_maximum_def max_def)

lemma np_max_Finite:
  "np_max (Float64 (map Finite ys)) =
     (if ys = [] then Inl ValueError else Inr (NpFloat (Finite (Max (set ys)))))"
proof (cases ys)
  case Nil
  then show ?thesis by simp
next
  case (Cons a list)
  show ?thesis
    using Max.set_eq_fold[of a list] by (simp add: Cons foldl_f_maximum_Finite)
qed

lemma small_power_no_wrap:
  assumes "0 \<le> w" and "w < 5"
  shows "wrap64 (10 ^ nat w) = 10 ^ nat w"
proof -
  have "w = 0 \<or> w = 1 \<or> w = 2 \<or> w = 3 \<or> w = 4" using assms by arith
  then show ?thesis by (auto simp: wrap64_def)
qed

lemma np_var_Nil: "np_var ex [] = NaN"
  by (simp add: np_var_def np_sum_def)


section \<open>Facts about the table and the stages\<close>

lemma frame_ok_lengths:
  assumes "frame_ok df" "map_of df a = Some x" "map_of df b = Some y"
  shows "arr_len x = arr_len y"
proof (cases df)
  case Nil
  with assms show ?thesis by simp
next
  case (Cons c cs)
  have all: "\<And>d. d \<in> set df \<Longrightarrow> arr_len (snd d) = arr_len (snd c)"
    using assms(1) Cons by (auto simp: frame_ok_def list_all_iff)
  have "(a, x) \<in> set df" "(b, y) \<in> set df"
    using assms(2,3) by (auto dest: map_of_SomeD)
  then show ?thesis using all by fastforce
qed

lemma arr_len_power10: "np_power10 p a = Inr a' \<Longrightarrow> arr_len a' = arr_len a"
  by (cases a) (auto split: if_splits)

lemma arr_len_true_divide: "np_true_divide r a s = Inr a' \<Longrightarrow> arr_len a' = arr_len a"
  by (cases a; cases s) (auto split: if_splits sum.splits)

lemma arr_len_multiply: "np_multiply r a s = Inr a' \<Longrightarrow> arr_len a' = arr_len a"
  by (cases a; cases s) (auto split: if_splits sum.splits)

lemma linearize_fields:
  assumes "Spectrum_linearize_wavelength ex s = Inr s'"
  shows "data s' = data s" and "flux s' = flux s" and "ivar s' = ivar s"
    and "arr_len (wavelength s') = arr_len (wavelength s)"
  using assms
  by (auto simp: Spectrum_linearize_wavelength_def dest: arr_len_power10
      split: if_splits sum.splits)

lemma linearize_aligned:
  "Spectrum_linearize_wavelength ex s = Inr s' \<Longrightarrow> aligned s \<Longrightarrow> aligned s'"
  by (auto simp: aligned_def linearize_fields split: option.splits)

lemma rest_frame_fields:
  assumes "Spectrum_to_rest_frame ex s = Inr s'"
  shows "data s' = data s" and "ivar s' = ivar s"
    and "arr_len (wavelength s') = arr_len (wavelength s)"
    and "arr_len (flux s') = arr_len (flux s)"
  using assms
  by (auto simp: Spectrum_to_rest_frame_def dest: arr_len_true_divide arr_len_multiply
      split: if_splits sum.splits)

lemma rest_frame_aligned:
  "Spectrum_to_rest_frame ex s = Inr s' \<Longrightarrow> aligned s \<Longrightarrow> aligned s'"
  by (auto simp: aligned_def rest_frame_fields split: option.splits)

lemma correct_extinction_returns:
  "Spectrum_correct_extinction ex s r = Inr rv \<Longrightarrow> a_v_extinction s = None \<and> rv = None"
  by (auto simp: Spectrum_correct_extinction_def ndarray_to_numpy_def split: option.splits)

lemma calculate_ivar_length:
  assumes "Spectrum_calculate_ivar ex cfg s = (Inr iv, cfg')"
    and "\<And>c. map_of (data s) ''ivar'' = Some c \<Longrightarrow> arr_len c = arr_len (wavelength s)"
  shows "arr_len iv = arr_len (wavelength s)"
  using assms
  by (auto simp: Spectrum_calculate_ivar_def df_has_column_def df_getitem_def Let_def
      split: if_splits sum.splits option.splits)

lemma mask_aligned:
  "Spectrum_mask_dead_pixels s = Inr s' \<Longrightarrow> aligned s' \<and> ivar s' \<noteq> None"
  by (auto simp: Spectrum_mask_dead_pixels_def aligned_def Let_def
      dest!: arr_bool_index_result_length split: option.splits sum.splits)

lemma mask_dead_pixels_nths:
  assumes "ivar self = Some iv"
    and "arr_len (flux self) = arr_len iv"
    and "arr_len (wavelength self) = arr_len iv"
    and "K = {i. i < arr_len iv \<and>
                 (case iv of Int64 ws \<Rightarrow> ws ! i \<noteq> 0 | Float64 xs \<Rightarrow> xs ! i \<noteq> Finite 0)}"
  shows "Spectrum_mask_dead_pixels self =
           Inr (self\<lparr>flux := arr_nths (flux self) K, ivar := Some (arr_nths iv K),
                     wavelength := arr_nths (wavelength self) K\<rparr>)"
  using assms
  by (simp add: Spectrum_mask_dead_pixels_def arr_bool_index_nths length_arr_ne0
      nonzero_indices Let_def)

lemma calculate_ivar_estimate:
  assumes "map_of (data self) ''ivar'' = None"
    and "arr_len (flux self) = arr_len (wavelength self)"
    and "window_bounds ex cfg self = Inr bounds"
    and "arr_getitem bounds 0 = Inr lo"
    and "arr_getitem bounds 1 = Inr hi"
  shows "Spectrum_calculate_ivar ex cfg self =
           (Inr (Float64 (replicate (arr_len (wavelength self))
                   (f_div (rnd ex) (Finite 1) (np_var ex (continuum_window ex self lo hi))))),
            cfg\<lparr>IVAR_INTERVALS := bounds\<rparr>)"
proof -
  have b: "(if \<not> rest_frame self
            then np_multiply (rnd ex) (IVAR_INTERVALS cfg) (py_one_plus (rnd ex) (redshift self))
            else Inr (IVAR_INTERVALS cfg)) = Inr bounds"
    using assms(3) by (simp add: window_bounds_def split: if_splits)
  have m: "arr_bool_index (flux self)
             (map2 (\<and>) (arr_ge (rnd ex) (wavelength self) lo)
                        (arr_le (rnd ex) (wavelength self) hi)) =
           Inr (arr_nths (flux self)
                  {i. i < arr_len (wavelength self) \<and>
                      arr_ge (rnd ex) (wavelength self) lo ! i \<and>
                      arr_le (rnd ex) (wavelength self) hi ! i})"
    using assms(2)
    by (subst arr_bool_index_nths) (simp_all add: length_arr_ge length_arr_le window_indices)
  show ?thesis
    unfolding Spectrum_calculate_ivar_def b
    using assms(1,4,5) by (simp add: df_has_column_def m continuum_window_def)
qed

lemma init_split:
  "Spectrum_init ex cfg path z a_v lin skiprows separator rf =
     (case Spectrum_before_ivar ex path z a_v lin skiprows separator rf of
        Inl e \<Rightarrow> (Inl e, cfg)
      | Inr self3 \<Rightarrow>
          (case Spectrum_calculate_ivar ex cfg self3 of
             (Inl e, cfg') \<Rightarrow> (Inl e, cfg')
           | (Inr iv, cfg') \<Rightarrow>
               (case Spectrum_mask_dead_pixels (self3\<lparr>ivar := Some iv\<rparr>) of
                  Inl e \<Rightarrow> (Inl e, cfg')
                | Inr self5 \<Rightarrow> (Inr self5, cfg'))))"
  by (simp add: Spectrum_init_def Spectrum_before_ivar_def Let_def
      split: sum.splits option.splits)

lemma mask_keeps_non_finite:
  assumes "arr_len (flux self) = n" and "arr_len (wavelength self) = n"
    and "v = NaN \<or> v = PosInf \<or> v = NegInf"
  shows "Spectrum_mask_dead_pixels (self\<lparr>ivar := Some (Float64 (replicate n v))\<rparr>) =
           Inr (self\<lparr>ivar := Some (Float64 (replicate n v))\<rparr>)"
proof -
  let ?iv = "Float64 (replicate n v)"
  let ?K = "{i. i < arr_len ?iv \<and>
                (case ?iv of Int64 ws \<Rightarrow> ws ! i \<noteq> 0 | Float64 xs \<Rightarrow> xs ! i \<noteq> Finite 0)}"
  have k: "\<forall>i<n. i \<in> ?K" using assms(3) by auto
  have "Spectrum_mask_dead_pixels (self\<lparr>ivar := Some ?iv\<rparr>) =
          Inr (self\<lparr>ivar := Some ?iv, flux := arr_nths (flux self) ?K,
                    ivar := Some (arr_nths ?iv ?K),
                    wavelength := arr_nths (wavelength self) ?K\<rparr>)"
    using mask_dead_pixels_nths[of "self\<lparr>ivar := Some ?iv\<rparr>" ?iv ?K] assms(1,2) by simp
  moreover have "arr_nths (flux self) ?K = flux self"
    "arr_nths (wavelength self) ?K = wavelength self" "arr_nths ?iv ?K = ?iv"
    using k assms(1,2) by (simp_all add: arr_len_nths_all del: arr_nths.simps)
  ultimately show ?thesis by simp
qed

lemmas eval_defs =
  Spectrum_init_def Spectrum_before_ivar_def read_data_def endswith_def lib_of_def
  df_getitem_def df_has_column_def
  Spectrum_linearize_wavelength_def Spectrum_correct_extinction_def ndarray_to_numpy_def
  Spectrum_to_rest_frame_def Spectrum_calculate_ivar_def Spectrum_mask_dead_pixels_def
  bool_index_def np_var_def np_sum_def exact_sum_def f_sub_def f_ne_def
  f_maximum_def to_double_def in_int64_def wrap64_def stem_def default_separator_def Let_def

section \<open>The claims\<close>

text \<open>
  C1. Whenever the constructor returns an object, the object it held after each stage had
  wavelength, flux and (from the stage that assigns it) ivar of one length, and so has the
  returned object. The stages are named by the equations: \<open>self0\<close> is the object after
  loading, \<open>self1\<close> after delinearization (which the extinction stage leaves as it is),
  \<open>self3\<close> after the rest-frame transform, then ivar is assigned and the mask applied.
\<close>

theorem lengths_equal_after_every_stage:
  assumes ok: "frame_ok df"
    and rd: "read_data ex path skiprows separator = Inr (Some df)"
    and init: "Spectrum_init ex cfg path z a_v lin skiprows separator rf = (Inr final, cfg')"
  shows "\<exists>self0 self1 self3 iv.
           data self0 = df \<and> ivar self0 = None \<and> aligned self0 \<and>
           Spectrum_linearize_wavelength ex self0 = Inr self1 \<and> aligned self1 \<and>
           Spectrum_correct_extinction ex self1 (rnd ex (31 / 10)) = Inr None \<and>
           Spectrum_to_rest_frame ex self1 = Inr self3 \<and> aligned self3 \<and>
           Spectrum_calculate_ivar ex cfg self3 = (Inr iv, cfg') \<and>
           aligned (self3\<lparr>ivar := Some iv\<rparr>) \<and>
           Spectrum_mask_dead_pixels (self3\<lparr>ivar := Some iv\<rparr>) = Inr final \<and>
           aligned final \<and> ivar final \<noteq> None"
proof -
  from init rd obtain wl fl where wl: "df_getitem df ''lambda'' = Inr wl"
    and fl: "df_getitem df ''flux'' = Inr fl"
    by (auto simp: Spectrum_init_def split: sum.splits)
  define self0 where "self0 = \<lparr>file_path = path, name = stem path, data = df, wavelength = wl,
                   flux = fl, redshift = z, rest_frame = rf,
                   linearize_wavelength = lin, a_v_extinction = a_v,
                   to_rest_frame = rf, ivar = None\<rparr>"
  have mwl: "map_of df ''lambda'' = Some wl" and mfl: "map_of df ''flux'' = Some fl"
    using wl fl by (auto simp: df_getitem_def split: option.splits)
  have a0: "aligned self0"
    using frame_ok_lengths[OF ok mwl mfl] by (simp add: aligned_def self0_def)
  from init rd wl fl obtain self1 where s1: "Spectrum_linearize_wavelength ex self0 = Inr self1"
    by (auto simp: Spectrum_init_def self0_def split: sum.splits)
  have a1: "aligned self1" using linearize_aligned[OF s1 a0] .
  from init rd wl fl s1 obtain rv
    where "Spectrum_correct_extinction ex self1 (rnd ex (31 / 10)) = Inr rv"
    by (auto simp: Spectrum_init_def self0_def split: sum.splits)
  then have ce: "Spectrum_correct_extinction ex self1 (rnd ex (31 / 10)) = Inr None"
    using correct_extinction_returns by blast
  from init rd wl fl s1 ce obtain self3 where s3: "Spectrum_to_rest_frame ex self1 = Inr self3"
    by (auto simp: Spectrum_init_def self0_def[symmetric] split: sum.splits)
  have a3: "aligned self3" using rest_frame_aligned[OF s3 a1] .
  from init rd wl fl s1 ce s3 obtain iv
    where ci: "Spectrum_calculate_ivar ex cfg self3 = (Inr iv, cfg')"
    and mk: "Spectrum_mask_dead_pixels (self3\<lparr>ivar := Some iv\<rparr>) = Inr final"
    by (auto simp: Spectrum_init_def self0_def[symmetric] split: sum.splits prod.splits)
  have d3: "data self3 = df"
    using linearize_fields(1)[OF s1] rest_frame_fields(1)[OF s3] by (simp add: self0_def)
  have l3: "arr_len (wavelength self3) = arr_len wl"
    using linearize_fields(4)[OF s1] rest_frame_fields(3)[OF s3] by (simp add: self0_def)
  have "arr_len iv = arr_len (wavelength self3)"
  proof (rule calculate_ivar_length[OF ci])
    fix c assume "map_of (data self3) ''ivar'' = Some c"
    then show "arr_len c = arr_len (wavelength self3)"
      using frame_ok_lengths[OF ok _ mwl, of "''ivar''" c] d3 l3 by simp
  qed
  then have a4: "aligned (self3\<lparr>ivar := Some iv\<rparr>)"
    using a3 by (simp add: aligned_def)
  have a5: "aligned final \<and> ivar final \<noteq> None" using mask_aligned[OF mk] .
  show ?thesis
    using a0 s1 a1 ce s3 a3 ci a4 mk a5
    by (intro exI[of _ self0] exI[of _ self1] exI[of _ self3] exI[of _ iv])
       (simp add: self0_def)
qed

theorem lengths_equal_after_every_stage_witness:
  "frame_ok sample_frame \<and>
   read_data (lib_of sample_frame) ''examples/sample.txt'' 2 default_separator
     = Inr (Some sample_frame) \<and>
   Spectrum_init (lib_of sample_frame) scaled_config ''examples/sample.txt'' (PyInt 0) None
     False 2 default_separator True = (Inr sample_final, scaled_config) \<and>
   aligned sample_final \<and> ivar sample_final \<noteq> None"
proof -
  have h1: "frame_ok sample_frame"
    by (simp add: frame_ok_def sample_frame_def)
  have h2: "read_data (lib_of sample_frame) ''examples/sample.txt'' 2 default_separator
              = Inr (Some sample_frame)"
    by (simp add: read_data_def endswith_def lib_of_def)
  have h3: "Spectrum_init (lib_of sample_frame) scaled_config ''examples/sample.txt''
              (PyInt 0) None False 2 default_separator True = (Inr sample_final, scaled_config)"
    by (simp add: eval_defs sample_frame_def scaled_config_def sample_final_def sample_pre_def)
  from lengths_equal_after_every_stage[OF h1 h2 h3]
  have "aligned sample_final \<and> ivar sample_final \<noteq> None" by blast
  with h1 h2 h3 show ?thesis by blast
qed



text \<open>
  C3. The claim that a maximum below 5 makes every sample \<open>w\<close> become \<open>10 ** w\<close> does not hold
  for every array: a text column of integers is an integer array, and on the integer
  array \<open>[-1, 2]\<close>, whose maximum 2 is below 5, the stage raises \<^verbatim>\<open>ValueError\<close>.
\<close>

theorem linearize_negative_integer_counterexample:
  "linearize_wavelength neg_px \<and> wavelength neg_px = Int64 [- 1, 2] \<and>
   np_max (wavelength neg_px) = Inr (NpInt 2) \<and> scalar_less (NpInt 2) 5 \<and>
   Spectrum_linearize_wavelength (lib_of []) neg_px = Inl ValueError"
  by (simp add: neg_px_def log_px_def Spectrum_linearize_wavelength_def)

text \<open>
  C3, as amended. Delinearization, when it is enabled and the wavelength array has a maximum
  \<open>m\<close> (the largest entry of an integer array and of an array of finite doubles). If \<open>m\<close> is
  less than 5: an integer array without a negative entry has every sample \<open>w\<close> replaced by
  the integer \<open>10 ^ w\<close>; an integer array with a negative entry makes the stage raise
  \<^verbatim>\<open>ValueError\<close>; an array of doubles has every sample replaced by the double that the
  platform's power gives for \<open>10 ** w\<close>, which is the double nearest to the real power
  wherever that power is correctly rounded. If \<open>m\<close> is not less than 5 (it is at least 5,
  or NaN) the object is unchanged.
\<close>

theorem linearize_policy:
  assumes "linearize_wavelength self"
    and "np_max (wavelength self) = Inr m"
  shows "(\<forall>ws. wavelength self = Int64 ws \<longrightarrow> m = NpInt (Max (set ws))) \<and>
         (\<forall>ys. wavelength self = Float64 (map Finite ys) \<longrightarrow>
            m = NpFloat (Finite (Max (set ys)))) \<and>
         (scalar_less m 5 \<longrightarrow>
            (\<forall>ws. wavelength self = Int64 ws \<and> (\<forall>w\<in>set ws. 0 \<le> w) \<longrightarrow>
               Spectrum_linearize_wavelength ex self =
                 Inr (self\<lparr>wavelength := Int64 (map (\<lambda>w. 10 ^ nat w) ws)\<rparr>)) \<and>
            (\<forall>ws. wavelength self = Int64 ws \<and> (\<exists>w\<in>set ws. w < 0) \<longrightarrow>
               Spectrum_linearize_wavelength ex self = Inl ValueError) \<and>
            (\<forall>xs. wavelength self = Float64 xs \<longrightarrow>
               Spectrum_linearize_wavelength ex self =
                 Inr (self\<lparr>wavelength := Float64 (map (f_pow10 (pow10 ex)) xs)\<rparr>))) \<and>
         (\<forall>a. pow10 ex a = rnd ex (10 powr a) \<longrightarrow>
            f_pow10 (pow10 ex) (Finite a) = rnd ex (10 powr a)) \<and>
         (\<not> scalar_less m 5 \<longrightarrow> Spectrum_linearize_wavelength ex self = Inr self)"
proof -
  have pw: "\<forall>a. pow10 ex a = rnd ex (10 powr a) \<longrightarrow>
              f_pow10 (pow10 ex) (Finite a) = rnd ex (10 powr a)"
    by simp
  have mi: "\<And>ws. wavelength self = Int64 ws \<Longrightarrow> m = NpInt (Max (set ws)) \<and> ws \<noteq> []"
    using assms(2) by (auto simp: np_max_Int64 split: if_splits)
  have mf: "\<And>ys. wavelength self = Float64 (map Finite ys) \<Longrightarrow>
              m = NpFloat (Finite (Max (set ys)))"
    using assms(2) by (auto simp: np_max_Finite split: if_splits)
  have nonneg: "\<And>ws. wavelength self = Int64 ws \<Longrightarrow> scalar_less m 5 \<Longrightarrow>
                  \<forall>w\<in>set ws. 0 \<le> w \<Longrightarrow>
                  map (\<lambda>w. wrap64 (10 ^ nat w)) ws = map (\<lambda>w. 10 ^ nat w) ws"
  proof -
    fix ws assume w: "wavelength self = Int64 ws" and lt: "scalar_less m 5"
      and nn: "\<forall>w\<in>set ws. 0 \<le> w"
    from mi[OF w] lt have "Max (set ws) < 5" by simp
    then have "\<forall>w\<in>set ws. w < 5"
      by (meson List.finite_set Max_ge le_less_trans)
    with nn show "map (\<lambda>w. wrap64 (10 ^ nat w)) ws = map (\<lambda>w. 10 ^ nat w) ws"
      by (intro map_cong refl small_power_no_wrap) auto
  qed
  have int_ok: "\<And>ws. scalar_less m 5 \<Longrightarrow> wavelength self = Int64 ws \<Longrightarrow>
                  \<forall>w\<in>set ws. 0 \<le> w \<Longrightarrow>
                  Spectrum_linearize_wavelength ex self =
                    Inr (self\<lparr>wavelength := Int64 (map (\<lambda>w. 10 ^ nat w) ws)\<rparr>)"
  proof -
    fix ws assume lt: "scalar_less m 5" and w: "wavelength self = Int64 ws"
      and nn: "\<forall>w\<in>set ws. 0 \<le> w"
    have "\<not> (\<exists>w\<in>set ws. w < 0)" using nn by fastforce
    then show "Spectrum_linearize_wavelength ex self =
                 Inr (self\<lparr>wavelength := Int64 (map (\<lambda>w. 10 ^ nat w) ws)\<rparr>)"
      using assms lt w nonneg[OF w lt nn]
      by (simp add: Spectrum_linearize_wavelength_def)
  qed
  have int_neg: "\<And>ws. scalar_less m 5 \<Longrightarrow> wavelength self = Int64 ws \<Longrightarrow>
                   \<exists>w\<in>set ws. w < 0 \<Longrightarrow>
                   Spectrum_linearize_wavelength ex self = Inl ValueError"
    using assms by (simp add: Spectrum_linearize_wavelength_def)
  have flt: "\<And>xs. scalar_less m 5 \<Longrightarrow> wavelength self = Float64 xs \<Longrightarrow>
               Spectrum_linearize_wavelength ex self =
                 Inr (self\<lparr>wavelength := Float64 (map (f_pow10 (pow10 ex)) xs)\<rparr>)"
    using assms by (simp add: Spectrum_linearize_wavelength_def)
  have ge: "\<not> scalar_less m 5 \<Longrightarrow> Spectrum_linearize_wavelength ex self = Inr self"
    using assms by (simp add: Spectrum_linearize_wavelength_def)
  show ?thesis
    using mi mf int_ok int_neg flt ge pw by blast
qed

theorem linearize_policy_witness:
  "linearize_wavelength int_log_px \<and> np_max (wavelength int_log_px) = Inr (NpInt 4) \<and>
   scalar_less (NpInt 4) 5 \<and>
   Spectrum_linearize_wavelength (lib_of []) int_log_px =
     Inr (int_log_px\<lparr>wavelength := Int64 [1000, 10000]\<rparr>) \<and>
   linearize_wavelength log_px \<and> np_max (wavelength log_px) = Inr (NpFloat (Finite 4)) \<and>
   scalar_less (NpFloat (Finite 4)) 5 \<and>
   Spectrum_linearize_wavelength (lib_of []) log_px =
     Inr (log_px\<lparr>wavelength := Float64 [Finite 1000, Finite 10000]\<rparr>) \<and>
   linearize_wavelength neg_px \<and> np_max (wavelength neg_px) = Inr (NpInt 2) \<and>
   Spectrum_linearize_wavelength (lib_of []) neg_px = Inl ValueError \<and>
   linearize_wavelength px \<and> np_max (wavelength px) = Inr (NpFloat (Finite 4006)) \<and>
   \<not> scalar_less (NpFloat (Finite 4006)) 5 \<and>
   Spectrum_linearize_wavelength (lib_of []) px = Inr px"
proof -
  have a1: "linearize_wavelength int_log_px" by (simp add: int_log_px_def log_px_def)
  have a2: "np_max (wavelength int_log_px) = Inr (NpInt 4)"
    by (simp add: int_log_px_def log_px_def)
  have a3: "scalar_less (NpInt 4) 5" by simp
  have a4: "wavelength int_log_px = Int64 [3, 4] \<and> (\<forall>w\<in>set [3, 4::int]. 0 \<le> w)"
    by (simp add: int_log_px_def)
  from linearize_policy[OF a1 a2, of "lib_of []"] a3 a4
  have a: "Spectrum_linearize_wavelength (lib_of []) int_log_px =
             Inr (int_log_px\<lparr>wavelength := Int64 [1000, 10000]\<rparr>)" by simp
  have b1: "linearize_wavelength log_px" by (simp add: log_px_def)
  have b2: "np_max (wavelength log_px) = Inr (NpFloat (Finite 4))"
    by (simp add: log_px_def f_maximum_def)
  have b3: "scalar_less (NpFloat (Finite 4)) 5" by simp
  have b4: "wavelength log_px = Float64 [Finite 3, Finite 4]" by (simp add: log_px_def)
  from linearize_policy[OF b1 b2, of "lib_of []"] b3 b4
  have b: "Spectrum_linearize_wavelength (lib_of []) log_px =
             Inr (log_px\<lparr>wavelength := Float64 [Finite 1000, Finite 10000]\<rparr>)"
    by (simp add: lib_of_def)
  have c1: "linearize_wavelength neg_px" by (simp add: neg_px_def log_px_def)
  have c2: "np_max (wavelength neg_px) = Inr (NpInt 2)" by (simp add: neg_px_def)
  have c3: "scalar_less (NpInt 2) 5" by simp
  have c4: "wavelength neg_px = Int64 [- 1, 2] \<and> (\<exists>w\<in>set [- 1, 2::int]. w < 0)"
    by (simp add: neg_px_def)
  from linearize_policy[OF c1 c2, of "lib_of []"] c3 c4
  have c: "Spectrum_linearize_wavelength (lib_of []) neg_px = Inl ValueError" by blast
  have d1: "linearize_wavelength px" by (simp add: px_def)
  have d2: "np_max (wavelength px) = Inr (NpFloat (Finite 4006))"
    by (simp add: px_def f_maximum_def)
  have d3: "\<not> scalar_less (NpFloat (Finite 4006)) 5" by simp
  from linearize_policy[OF d1 d2, of "lib_of []"] d3
  have d: "Spectrum_linearize_wavelength (lib_of []) px = Inr px" by blast
  show ?thesis using a1 a2 a3 a b1 b2 b3 b c1 c2 c d1 d2 d3 d by simp
qed

text \<open>
  C4. Dead-pixel masking keeps, in flux, ivar and wavelength alike, exactly the entries at
  the indices \<open>K\<close> where ivar is not zero, in their order (\<open>arr_nths a K\<close> is the array of
  the entries of \<open>a\<close> at the indices in \<open>K\<close>). In the sample object pixels 2 and 5 are zero
  and are the two that go.
\<close>

theorem mask_dead_pixels_keeps_nonzero:
  assumes "ivar self = Some iv"
    and "arr_len (flux self) = arr_len iv"
    and "arr_len (wavelength self) = arr_len iv"
    and "K = {i. i < arr_len iv \<and>
                 (case iv of Int64 ws \<Rightarrow> ws ! i \<noteq> 0 | Float64 xs \<Rightarrow> xs ! i \<noteq> Finite 0)}"
  shows "Spectrum_mask_dead_pixels self =
           Inr (self\<lparr>flux := arr_nths (flux self) K, ivar := Some (arr_nths iv K),
                     wavelength := arr_nths (wavelength self) K\<rparr>)"
  using assms by (rule mask_dead_pixels_nths)

theorem mask_dead_pixels_keeps_nonzero_witness:
  "ivar px = Some (Float64 [Finite 1, Finite 2, Finite 0, NaN, PosInf, Finite 0, Finite 3]) \<and>
   arr_len (flux px) = 7 \<and> arr_len (wavelength px) = 7 \<and>
   Spectrum_mask_dead_pixels px =
     Inr (px\<lparr>flux := Float64 (map Finite [10, 11, 13, 14, 16]),
              ivar := Some (Float64 [Finite 1, Finite 2, NaN, PosInf, Finite 3]),
              wavelength := Float64 (map Finite [4000, 4001, 4003, 4004, 4006])\<rparr>)"
proof -
  let ?iv = "Float64 [Finite 1, Finite 2, Finite 0, NaN, PosInf, Finite 0, Finite 3]"
  let ?K = "{i. i < arr_len ?iv \<and>
                (case ?iv of Int64 ws \<Rightarrow> ws ! i \<noteq> 0 | Float64 xs \<Rightarrow> xs ! i \<noteq> Finite 0)}"
  have h1: "ivar px = Some ?iv" by (simp add: px_def)
  have h2: "arr_len (flux px) = arr_len ?iv" by (simp add: px_def)
  have h3: "arr_len (wavelength px) = arr_len ?iv" by (simp add: px_def)
  have e1: "arr_nths (flux px) ?K = Float64 (map Finite [10, 11, 13, 14, 16])"
    by (simp add: px_def nths_Cons)
  have e2: "arr_nths ?iv ?K = Float64 [Finite 1, Finite 2, NaN, PosInf, Finite 3]"
    by (simp add: nths_Cons)
  have e3: "arr_nths (wavelength px) ?K = Float64 (map Finite [4000, 4001, 4003, 4004, 4006])"
    by (simp add: px_def nths_Cons)
  have "Spectrum_mask_dead_pixels px =
     Inr (px\<lparr>flux := Float64 (map Finite [10, 11, 13, 14, 16]),
              ivar := Some (Float64 [Finite 1, Finite 2, NaN, PosInf, Finite 3]),
              wavelength := Float64 (map Finite [4000, 4001, 4003, 4004, 4006])\<rparr>)"
    unfolding e1[symmetric] e2[symmetric] e3[symmetric]
    by (rule mask_dead_pixels_keeps_nonzero[OF h1 h2 h3 refl])
  with h1 h2 h3 show ?thesis by simp
qed

text \<open>
  C5. The claim that a degenerate continuum window makes the estimation fail does not hold
  of the code: no stage raises on it. Constructing from the five-row sample with a window
  that contains no wavelength returns an object whose ivar is NaN at every pixel.
\<close>

theorem degenerate_continuum_counterexample:
  "map_sum id ivar
     (fst (Spectrum_init (lib_of sample_frame) far_config ''examples/sample.txt'' (PyInt 0)
             None False 2 default_separator True))
   = Inr (Some (Float64 [NaN, NaN, NaN, NaN, NaN]))"
  by (simp add: eval_defs sample_frame_def far_config_def)

text \<open>
  C5, as amended. Without an \<^verbatim>\<open>ivar\<close> column the estimation returns an array and no
  error. When the window selects no sample, every pixel's ivar is NaN, and when
  \<^verbatim>\<open>np.var\<close> of the selected flux is zero, every pixel's ivar is plus infinity. A
  construction that reaches the estimation with such a window returns the object it had
  reached with that ivar, no pixel removed.
\<close>

theorem degenerate_continuum_gives_nonfinite_ivar:
  assumes "map_of (data self) ''ivar'' = None"
    and "arr_len (flux self) = arr_len (wavelength self)"
    and "window_bounds ex cfg self = Inr bounds"
    and "arr_getitem bounds 0 = Inr lo"
    and "arr_getitem bounds 1 = Inr hi"
    and "c = continuum_window ex self lo hi"
    and "v = (if c = [] then NaN else PosInf)"
    and "c = [] \<or> np_var ex c = Finite 0"
  shows "Spectrum_calculate_ivar ex cfg self =
           (Inr (Float64 (replicate (arr_len (wavelength self)) v)),
            cfg\<lparr>IVAR_INTERVALS := bounds\<rparr>) \<and>
         (\<forall>path z a_v lin skiprows separator rf.
            Spectrum_before_ivar ex path z a_v lin skiprows separator rf = Inr self \<longrightarrow>
            Spectrum_init ex cfg path z a_v lin skiprows separator rf =
              (Inr (self\<lparr>ivar := Some (Float64 (replicate (arr_len (wavelength self)) v))\<rparr>),
               cfg\<lparr>IVAR_INTERVALS := bounds\<rparr>))"
proof -
  have iv: "f_div (rnd ex) (Finite 1) (np_var ex c) = v"
    using assms(7,8) by (auto simp: np_var_Nil)
  have e: "Spectrum_calculate_ivar ex cfg self =
           (Inr (Float64 (replicate (arr_len (wavelength self)) v)),
            cfg\<lparr>IVAR_INTERVALS := bounds\<rparr>)"
    using calculate_ivar_estimate[OF assms(1-5)] iv assms(6) by simp
  have nf: "v = NaN \<or> v = PosInf \<or> v = NegInf" using assms(7) by simp
  have m: "Spectrum_mask_dead_pixels
             (self\<lparr>ivar := Some (Float64 (replicate (arr_len (wavelength self)) v))\<rparr>) =
           Inr (self\<lparr>ivar := Some (Float64 (replicate (arr_len (wavelength self)) v))\<rparr>)"
    using mask_keeps_non_finite[OF assms(2) refl nf] .
  show ?thesis using e m by (simp add: init_split)
qed

theorem degenerate_continuum_gives_nonfinite_ivar_witness:
  "map_of (data sample_pre) ''ivar'' = None \<and>
   arr_len (flux sample_pre) = arr_len (wavelength sample_pre) \<and>
   window_bounds (lib_of sample_frame) far_config sample_pre = Inr (Int64 [100, 200]) \<and>
   continuum_window (lib_of sample_frame) sample_pre (NpInt 100) (NpInt 200) = [] \<and>
   Spectrum_before_ivar (lib_of sample_frame) ''examples/sample.txt'' (PyInt 0) None False 2
     default_separator True = Inr sample_pre \<and>
   Spectrum_init (lib_of sample_frame) far_config ''examples/sample.txt'' (PyInt 0) None False 2
     default_separator True =
     (Inr (sample_pre\<lparr>ivar := Some (Float64 [NaN, NaN, NaN, NaN, NaN])\<rparr>), far_config) \<and>
   map_of (data flat_pre) ''ivar'' = None \<and>
   arr_len (flux flat_pre) = arr_len (wavelength flat_pre) \<and>
   window_bounds (lib_of flat_frame) sample_config flat_pre = Inr (Int64 [0, 10]) \<and>
   continuum_window (lib_of flat_frame) flat_pre (NpInt 0) (NpInt 10) =
     map Finite [1, 1, 1, 1, 1] \<and>
   np_var (lib_of flat_frame) (map Finite [1, 1, 1, 1, 1]) = Finite 0 \<and>
   Spectrum_calculate_ivar (lib_of flat_frame) sample_config flat_pre =
     (Inr (Float64 [PosInf, PosInf, PosInf, PosInf, PosInf]), sample_config)"
proof -
  have a1: "map_of (data sample_pre) ''ivar'' = None"
    by (simp add: sample_pre_def sample_frame_def)
  have a2: "arr_len (flux sample_pre) = arr_len (wavelength sample_pre)"
    by (simp add: sample_pre_def)
  have a3: "window_bounds (lib_of sample_frame) far_config sample_pre = Inr (Int64 [100, 200])"
    by (simp add: window_bounds_def far_config_def sample_pre_def)
  have a4: "arr_getitem (Int64 [100, 200]) 0 = Inr (NpInt 100)"
    "arr_getitem (Int64 [100, 200]) 1 = Inr (NpInt 200)" by simp_all
  have a5: "continuum_window (lib_of sample_frame) sample_pre (NpInt 100) (NpInt 200) = []"
    by (simp add: continuum_window_def sample_pre_def lib_of_def nths_Cons to_double_def)
  have a6: "Spectrum_before_ivar (lib_of sample_frame) ''examples/sample.txt'' (PyInt 0) None
              False 2 default_separator True = Inr sample_pre"
    by (simp add: eval_defs sample_frame_def sample_pre_def)
  have a7: "continuum_window (lib_of sample_frame) sample_pre (NpInt 100) (NpInt 200) = [] \<or>
            np_var (lib_of sample_frame)
              (continuum_window (lib_of sample_frame) sample_pre (NpInt 100) (NpInt 200))
              = Finite 0"
    using a5 by simp
  note ta = degenerate_continuum_gives_nonfinite_ivar[OF a1 a2 a3 a4 refl refl a7,
      THEN conjunct2, rule_format, OF a6]
  have a: "Spectrum_init (lib_of sample_frame) far_config ''examples/sample.txt'' (PyInt 0) None
             False 2 default_separator True =
           (Inr (sample_pre\<lparr>ivar := Some (Float64 [NaN, NaN, NaN, NaN, NaN])\<rparr>), far_config)"
    using ta a5 by (simp add: sample_pre_def far_config_def)
  have b1: "map_of (data flat_pre) ''ivar'' = None"
    by (simp add: flat_pre_def flat_frame_def)
  have b2: "arr_len (flux flat_pre) = arr_len (wavelength flat_pre)"
    by (simp add: flat_pre_def)
  have b3: "window_bounds (lib_of flat_frame) sample_config flat_pre = Inr (Int64 [0, 10])"
    by (simp add: window_bounds_def sample_config_def flat_pre_def)
  have b4: "arr_getitem (Int64 [0, 10]) 0 = Inr (NpInt 0)"
    "arr_getitem (Int64 [0, 10]) 1 = Inr (NpInt 10)" by simp_all
  have b5: "continuum_window (lib_of flat_frame) flat_pre (NpInt 0) (NpInt 10) =
              map Finite [1, 1, 1, 1, 1]"
    by (simp add: continuum_window_def flat_pre_def lib_of_def nths_Cons to_double_def)
  have b6: "np_var (lib_of flat_frame) (map Finite [1, 1, 1, 1, 1]) = Finite 0"
    by (simp add: np_var_def np_sum_def lib_of_def exact_sum_def f_sub_def)
  have b7: "continuum_window (lib_of flat_frame) flat_pre (NpInt 0) (NpInt 10) = [] \<or>
            np_var (lib_of flat_frame)
              (continuum_window (lib_of flat_frame) flat_pre (NpInt 0) (NpInt 10)) = Finite 0"
    using b5 b6 by simp
  note tb = degenerate_continuum_gives_nonfinite_ivar[OF b1 b2 b3 b4 refl refl b7,
      THEN conjunct1]
  have b: "Spectrum_calculate_ivar (lib_of flat_frame) sample_config flat_pre =
     (Inr (Float64 [PosInf, PosInf, PosInf, PosInf, PosInf]), sample_config)"
    using tb b5 b6 by (simp add: flat_pre_def sample_config_def)
  show ?thesis using a1 a2 a3 a5 a6 a b1 b2 b3 b5 b6 b by simp
qed

text \<open>
  C6. With an extinction magnitude the stage does not replace the stored flux. The method
  only returns the de-reddened array, which \<^verbatim>\<open>__init__\<close> drops, and before that its call
  of \<^verbatim>\<open>to_numpy\<close> on the wavelength array raises: for every object with a magnitude the
  stage ends in \<^verbatim>\<open>AttributeError\<close>, and so does the construction from the sample file.
\<close>

theorem extinction_stage_raises:
  "Spectrum_correct_extinction ex (self\<lparr>a_v_extinction := Some a_v\<rparr>) r_v = Inl AttributeError \<and>
   Spectrum_init (lib_of sample_frame) sample_config ''examples/sample.txt'' (PyInt 0)
     (Some (Finite 1)) False 2 default_separator True = (Inl AttributeError, sample_config)"
  by (simp add: eval_defs sample_frame_def)

text \<open>
  C7. The claim that the output flux is the input flux times \<open>1 + z\<close> does not hold for every
  input: a text column of integers is an integer array, and its product with an integer
  \<open>1 + z\<close> wraps around at 64 bits. At redshift 1 the flux 5000000000000000000 becomes
  -8446744073709551616.
\<close>

theorem rest_frame_integer_wrap_counterexample:
  "to_rest_frame wrap_px \<and> redshift wrap_px = PyInt 1 \<and>
   flux wrap_px = Int64 [5000000000000000000, 3] \<and>
   map_sum id flux (Spectrum_to_rest_frame (lib_of []) wrap_px) =
     Inr (Int64 [- 8446744073709551616, 6]) \<and>
   5000000000000000000 * (1 + 1) \<noteq> (- 8446744073709551616 :: int)"
  by (simp add: wrap_px_def Spectrum_to_rest_frame_def lib_of_def to_double_def in_int64_def
      wrap64_def)

text \<open>
  C7, as amended. The rest-frame transform, when enabled, for a redshift \<open>z\<close> whose \<open>1 + z\<close>
  is the double \<open>d\<close> (and, for an integer \<open>z\<close>, fits 64 bits): every wavelength sample, as a
  double, is divided by \<open>d\<close> in double arithmetic. Every flux sample is multiplied by
  \<open>1 + z\<close>: in double arithmetic by \<open>d\<close>, except that an integer flux array with an integer
  redshift gives the integer product wrapped to 64 bits. The double quotient and product
  are the rounded real ones, and the wrapped product is the integer product when that fits
  64 bits. When the transform is disabled the object is unchanged.
\<close>

theorem rest_frame_policy:
  assumes "py_float (rnd ex) (py_one_plus (rnd ex) (redshift self)) = Inr d"
    and "\<forall>k. redshift self = PyInt k \<longrightarrow> in_int64 (1 + k)"
  shows "(to_rest_frame self \<longrightarrow>
            Spectrum_to_rest_frame ex self =
              Inr (self\<lparr>wavelength :=
                          Float64 (map (\<lambda>x. f_div (rnd ex) x d)
                                     (arr_floats (rnd ex) (wavelength self))),
                        flux :=
                          (case (flux self, redshift self) of
                             (Int64 ws, PyInt k) \<Rightarrow> Int64 (map (\<lambda>w. wrap64 (w * (1 + k))) ws)
                           | (fl, _) \<Rightarrow>
                               Float64 (map (\<lambda>x. f_mul (rnd ex) x d)
                                          (arr_floats (rnd ex) fl)))\<rparr>)) \<and>
         (\<forall>a b. b \<noteq> 0 \<longrightarrow> f_div (rnd ex) (Finite a) (Finite b) = rnd ex (a / b)) \<and>
         (\<forall>a b. f_mul (rnd ex) (Finite a) (Finite b) = rnd ex (a * b)) \<and>
         (\<forall>w k. in_int64 (w * (1 + k)) \<longrightarrow> wrap64 (w * (1 + k)) = w * (1 + k)) \<and>
         (\<forall>k. redshift self = PyInt k \<longrightarrow> d = to_double (rnd ex) (1 + k)) \<and>
         (\<forall>f. redshift self = PyFloat f \<longrightarrow> d = f_add (rnd ex) (Finite 1) f) \<and>
         (\<not> to_rest_frame self \<longrightarrow> Spectrum_to_rest_frame ex self = Inr self)"
proof -
  have dk: "\<And>k. redshift self = PyInt k \<Longrightarrow> d = to_double (rnd ex) (1 + k)"
    using assms(1) by (auto simp: to_double_def split: float64.splits)
  have df: "\<And>f. redshift self = PyFloat f \<Longrightarrow> d = f_add (rnd ex) (Finite 1) f"
    using assms(1) by simp
  have main: "to_rest_frame self \<Longrightarrow>
            Spectrum_to_rest_frame ex self =
              Inr (self\<lparr>wavelength :=
                          Float64 (map (\<lambda>x. f_div (rnd ex) x d)
                                     (arr_floats (rnd ex) (wavelength self))),
                        flux :=
                          (case (flux self, redshift self) of
                             (Int64 ws, PyInt k) \<Rightarrow> Int64 (map (\<lambda>w. wrap64 (w * (1 + k))) ws)
                           | (fl, _) \<Rightarrow>
                               Float64 (map (\<lambda>x. f_mul (rnd ex) x d)
                                          (arr_floats (rnd ex) fl)))\<rparr>)"
  proof (cases "redshift self")
    case (PyInt k)
    assume t: "to_rest_frame self"
    have r: "in_int64 (1 + k)" using assms(2) PyInt by simp
    have p: "py_float (rnd ex) (PyInt (1 + k)) = Inr d" using assms(1) PyInt by simp
    show ?thesis
      using t r p dk[OF PyInt]
      by (cases "wavelength self"; cases "flux self")
         (simp_all add: Spectrum_to_rest_frame_def PyInt o_def)
  next
    case (PyFloat f)
    assume t: "to_rest_frame self"
    show ?thesis
      using t df[OF PyFloat]
      by (cases "wavelength self"; cases "flux self")
         (simp_all add: Spectrum_to_rest_frame_def PyFloat o_def)
  qed
  show ?thesis
    using main dk df by (auto simp: wrap64_id Spectrum_to_rest_frame_def)
qed

theorem rest_frame_policy_witness:
  "py_float (rnd (lib_of [])) (py_one_plus (rnd (lib_of [])) (redshift px)) = Inr (Finite 2) \<and>
   redshift px = PyInt 1 \<and> in_int64 (1 + 1) \<and> to_rest_frame px \<and>
   Spectrum_to_rest_frame (lib_of []) px =
     Inr (px\<lparr>wavelength :=
                Float64 (map Finite [2000, 4001 / 2, 2001, 4003 / 2, 2002, 4005 / 2, 2003]),
              flux := Float64 (map Finite [20, 22, 24, 26, 28, 30, 32])\<rparr>) \<and>
   py_float (rnd (lib_of [])) (py_one_plus (rnd (lib_of [])) (redshift wrap_px))
     = Inr (Finite 2) \<and>
   redshift wrap_px = PyInt 1 \<and> to_rest_frame wrap_px \<and>
   Spectrum_to_rest_frame (lib_of []) wrap_px =
     Inr (wrap_px\<lparr>wavelength := Float64 (map Finite [2000, 2001]),
                   flux := Int64 [- 8446744073709551616, 6]\<rparr>) \<and>
   py_float (rnd (lib_of [])) (py_one_plus (rnd (lib_of [])) (redshift log_px))
     = Inr (Finite 2) \<and>
   redshift log_px = PyFloat (Finite 1) \<and> \<not> to_rest_frame log_px \<and>
   Spectrum_to_rest_frame (lib_of []) log_px = Inr log_px"
proof -
  have a1: "py_float (rnd (lib_of [])) (py_one_plus (rnd (lib_of [])) (redshift px))
              = Inr (Finite 2)"
    by (simp add: px_def lib_of_def)
  have a2: "\<forall>k. redshift px = PyInt k \<longrightarrow> in_int64 (1 + k)"
    by (simp add: px_def in_int64_def)
  have a3: "redshift px = PyInt 1 \<and> in_int64 (1 + 1) \<and> to_rest_frame px"
    by (simp add: px_def in_int64_def)
  from rest_frame_policy[OF a1 a2, THEN conjunct1] a3
  have a: "Spectrum_to_rest_frame (lib_of []) px =
     Inr (px\<lparr>wavelength :=
                Float64 (map Finite [2000, 4001 / 2, 2001, 4003 / 2, 2002, 4005 / 2, 2003]),
              flux := Float64 (map Finite [20, 22, 24, 26, 28, 30, 32])\<rparr>)"
    by (simp add: px_def lib_of_def)
  have b1: "py_float (rnd (lib_of [])) (py_one_plus (rnd (lib_of [])) (redshift wrap_px))
              = Inr (Finite 2)"
    by (simp add: wrap_px_def lib_of_def)
  have b2: "\<forall>k. redshift wrap_px = PyInt k \<longrightarrow> in_int64 (1 + k)"
    by (simp add: wrap_px_def in_int64_def)
  have b3: "redshift wrap_px = PyInt 1 \<and> to_rest_frame wrap_px"
    by (simp add: wrap_px_def)
  from rest_frame_policy[OF b1 b2, THEN conjunct1] b3
  have b: "Spectrum_to_rest_frame (lib_of []) wrap_px =
     Inr (wrap_px\<lparr>wavelength := Float64 (map Finite [2000, 2001]),
                   flux := Int64 [- 8446744073709551616, 6]\<rparr>)"
    by (simp add: wrap_px_def lib_of_def to_double_def wrap64_def)
  have c1: "py_float (rnd (lib_of [])) (py_one_plus (rnd (lib_of [])) (redshift log_px))
              = Inr (Finite 2)"
    by (simp add: log_px_def lib_of_def)
  have c2: "\<forall>k. redshift log_px = PyInt k \<longrightarrow> in_int64 (1 + k)"
    by (simp add: log_px_def)
  have c3: "redshift log_px = PyFloat (Finite 1) \<and> \<not> to_rest_frame log_px"
    by (simp add: log_px_def)
  from rest_frame_policy[OF c1 c2] c3
  have c: "Spectrum_to_rest_frame (lib_of []) log_px = Inr log_px" by blast
  show ?thesis using a1 a3 a b1 b3 b c1 c3 c by simp
qed

text \<open>
  C8. Computing ivar for an object left in the observed frame rebinds the shared interval.
  With the interval \<open>[1, 3]\<close> and redshift 1 the construction leaves \<open>[2, 6]\<close> in the
  configuration, and the same construction run again on what it left computes a different
  ivar (4 instead of 2), from the interval \<open>[4, 12]\<close>.
\<close>

theorem ivar_interval_rebound:
  "snd (Spectrum_init (lib_of sample_frame) narrow_config ''examples/sample.txt'' (PyInt 1)
          None False 2 default_separator False) = scaled_config \<and>
   IVAR_INTERVALS narrow_config = Int64 [1, 3] \<and>
   IVAR_INTERVALS scaled_config = Int64 [2, 6] \<and>
   map_sum id ivar
     (fst (Spectrum_init (lib_of sample_frame) narrow_config ''examples/sample.txt'' (PyInt 1)
          None False 2 default_separator False))
     = Inr (Some (Float64 [Finite 2, Finite 2, Finite 2, Finite 2, Finite 2])) \<and>
   map_sum id ivar
     (fst (Spectrum_init (lib_of sample_frame) scaled_config ''examples/sample.txt'' (PyInt 1)
          None False 2 default_separator False))
     = Inr (Some (Float64 [Finite 4, Finite 4, Finite 4, Finite 4, Finite 4])) \<and>
   snd (Spectrum_init (lib_of sample_frame) scaled_config ''examples/sample.txt'' (PyInt 1)
          None False 2 default_separator False) = \<lparr>IVAR_INTERVALS = Int64 [4, 12]\<rparr>"
  by (simp add: eval_defs sample_frame_def narrow_config_def scaled_config_def)

text \<open>
  C9. The claim that loading fails for an unsupported extension does not hold of the code:
  \<^verbatim>\<open>read_data\<close> raises nothing for such a path and returns \<^verbatim>\<open>None\<close>.
\<close>

theorem unsupported_extension_counterexample:
  "read_data (lib_of sample_frame) ''examples/sample.csv'' 2 default_separator = Inr None"
  by (simp add: read_data_def endswith_def)

text \<open>
  C9, as amended. For a path that ends in neither \<^verbatim>\<open>.txt\<close> nor \<^verbatim>\<open>.fits\<close>, \<^verbatim>\<open>read_data\<close>
  returns \<^verbatim>\<open>None\<close> without an error, and the construction of a Spectrum from that path
  raises \<^verbatim>\<open>TypeError\<close> and leaves the configuration as it was.
\<close>

theorem unsupported_extension_returns_none:
  assumes "\<not> endswith path ''.txt''" and "\<not> endswith path ''.fits''"
  shows "read_data ex path skiprows separator = Inr None \<and>
         Spectrum_init ex cfg path z a_v lin skiprows separator rf = (Inl TypeError, cfg)"
  using assms by (simp add: read_data_def Spectrum_init_def)

theorem unsupported_extension_returns_none_witness:
  "\<not> endswith ''examples/sdss.FITS'' ''.txt'' \<and> \<not> endswith ''examples/sdss.FITS'' ''.fits'' \<and>
   read_data (lib_of ivar_frame) ''examples/sdss.FITS'' 2 default_separator = Inr None \<and>
   Spectrum_init (lib_of ivar_frame) sample_config ''examples/sdss.FITS'' (PyInt 1) None True 2
     default_separator True = (Inl TypeError, sample_config)"
proof -
  have h1: "\<not> endswith ''examples/sdss.FITS'' ''.txt''" by (simp add: endswith_def)
  have h2: "\<not> endswith ''examples/sdss.FITS'' ''.fits''" by (simp add: endswith_def)
  show ?thesis
    using h1 h2 unsupported_extension_returns_none[OF h1 h2] by simp
qed

text \<open>
  C10. Masking an object whose ivar has just been assigned keeps, in flux, ivar and
  wavelength alike, the entries at the indices \<open>K\<close>, and \<open>K\<close> holds an index exactly when the
  ivar there is not zero: the pixels removed are exactly those with ivar equal to 0, and a
  pixel whose ivar is NaN or infinite is kept. When all of ivar is NaN or infinite nothing
  is removed. In particular, when \<^verbatim>\<open>np.var\<close> of the continuum window is zero the estimated
  ivar is plus infinity at every pixel and masking removes none.
\<close>

theorem non_finite_ivar_survives_masking:
  assumes lf: "arr_len (flux self) = arr_len iv"
    and lw: "arr_len (wavelength self) = arr_len iv"
    and k: "K = {i. i < arr_len iv \<and>
                    (case iv of Int64 ws \<Rightarrow> ws ! i \<noteq> 0 | Float64 xs \<Rightarrow> xs ! i \<noteq> Finite 0)}"
  shows "Spectrum_mask_dead_pixels (self\<lparr>ivar := Some iv\<rparr>) =
           Inr (self\<lparr>flux := arr_nths (flux self) K, ivar := Some (arr_nths iv K),
                     wavelength := arr_nths (wavelength self) K\<rparr>) \<and>
         (\<forall>ws i. iv = Int64 ws \<and> i < length ws \<longrightarrow> (i \<notin> K \<longleftrightarrow> ws ! i = 0)) \<and>
         (\<forall>xs i. iv = Float64 xs \<and> i < length xs \<longrightarrow>
            (i \<notin> K \<longleftrightarrow> xs ! i = Finite 0) \<and>
            (xs ! i = NaN \<or> xs ! i = PosInf \<or> xs ! i = NegInf \<longrightarrow> i \<in> K)) \<and>
         (\<forall>xs. iv = Float64 xs \<and> set xs \<subseteq> {NaN, PosInf, NegInf} \<longrightarrow>
            Spectrum_mask_dead_pixels (self\<lparr>ivar := Some iv\<rparr>) = Inr (self\<lparr>ivar := Some iv\<rparr>)) \<and>
         (\<forall>ex cfg bounds lo hi.
            map_of (data self) ''ivar'' = None \<and>
            window_bounds ex cfg self = Inr bounds \<and>
            arr_getitem bounds 0 = Inr lo \<and> arr_getitem bounds 1 = Inr hi \<and>
            np_var ex (continuum_window ex self lo hi) = Finite 0 \<longrightarrow>
            Spectrum_calculate_ivar ex cfg self =
              (Inr (Float64 (replicate (arr_len (wavelength self)) PosInf)),
               cfg\<lparr>IVAR_INTERVALS := bounds\<rparr>) \<and>
            Spectrum_mask_dead_pixels
              (self\<lparr>ivar := Some (Float64 (replicate (arr_len (wavelength self)) PosInf))\<rparr>) =
              Inr (self\<lparr>ivar := Some (Float64 (replicate (arr_len (wavelength self)) PosInf))\<rparr>))"
proof -
  have m: "Spectrum_mask_dead_pixels (self\<lparr>ivar := Some iv\<rparr>) =
           Inr (self\<lparr>flux := arr_nths (flux self) K, ivar := Some (arr_nths iv K),
                     wavelength := arr_nths (wavelength self) K\<rparr>)"
    using mask_dead_pixels_nths[of "self\<lparr>ivar := Some iv\<rparr>" iv K] lf lw k by simp
  have ki: "\<forall>ws i. iv = Int64 ws \<and> i < length ws \<longrightarrow> (i \<notin> K \<longleftrightarrow> ws ! i = 0)"
    using k by auto
  have kf: "\<forall>xs i. iv = Float64 xs \<and> i < length xs \<longrightarrow>
            (i \<notin> K \<longleftrightarrow> xs ! i = Finite 0) \<and>
            (xs ! i = NaN \<or> xs ! i = PosInf \<or> xs ! i = NegInf \<longrightarrow> i \<in> K)"
    using k by auto
  have all: "\<forall>xs. iv = Float64 xs \<and> set xs \<subseteq> {NaN, PosInf, NegInf} \<longrightarrow>
            Spectrum_mask_dead_pixels (self\<lparr>ivar := Some iv\<rparr>) = Inr (self\<lparr>ivar := Some iv\<rparr>)"
  proof (intro allI impI, elim conjE)
    fix xs assume x: "iv = Float64 xs" and s: "set xs \<subseteq> {NaN, PosInf, NegInf}"
    have "\<forall>i<arr_len iv. i \<in> K"
    proof (intro allI impI)
      fix i assume i: "i < arr_len iv"
      then have "xs ! i \<in> {NaN, PosInf, NegInf}" using s x nth_mem by fastforce
      then show "i \<in> K" using i x k by auto
    qed
    then have "arr_nths (flux self) K = flux self" "arr_nths (wavelength self) K = wavelength self"
      "arr_nths iv K = iv"
      using lf lw by (simp_all add: arr_len_nths_all del: arr_nths.simps)
    then show "Spectrum_mask_dead_pixels (self\<lparr>ivar := Some iv\<rparr>) = Inr (self\<lparr>ivar := Some iv\<rparr>)"
      using m by simp
  qed
  have len: "arr_len (flux self) = arr_len (wavelength self)" using lf lw by simp
  have flat: "\<forall>ex cfg bounds lo hi.
            map_of (data self) ''ivar'' = None \<and>
            window_bounds ex cfg self = Inr bounds \<and>
            arr_getitem bounds 0 = Inr lo \<and> arr_getitem bounds 1 = Inr hi \<and>
            np_var ex (continuum_window ex self lo hi) = Finite 0 \<longrightarrow>
            Spectrum_calculate_ivar ex cfg self =
              (Inr (Float64 (replicate (arr_len (wavelength self)) PosInf)),
               cfg\<lparr>IVAR_INTERVALS := bounds\<rparr>) \<and>
            Spectrum_mask_dead_pixels
              (self\<lparr>ivar := Some (Float64 (replicate (arr_len (wavelength self)) PosInf))\<rparr>) =
              Inr (self\<lparr>ivar := Some (Float64 (replicate (arr_len (wavelength self)) PosInf))\<rparr>)"
  proof (intro allI impI, elim conjE)
    fix ex cfg bounds lo hi
    assume a: "map_of (data self) ''ivar'' = None" "window_bounds ex cfg self = Inr bounds"
      "arr_getitem bounds 0 = Inr lo" "arr_getitem bounds 1 = Inr hi"
      "np_var ex (continuum_window ex self lo hi) = Finite 0"
    have "Spectrum_calculate_ivar ex cfg self =
              (Inr (Float64 (replicate (arr_len (wavelength self)) PosInf)),
               cfg\<lparr>IVAR_INTERVALS := bounds\<rparr>)"
      using calculate_ivar_estimate[OF a(1) len a(2) a(3) a(4)] a(5) by simp
    moreover have "Spectrum_mask_dead_pixels
              (self\<lparr>ivar := Some (Float64 (replicate (arr_len (wavelength self)) PosInf))\<rparr>) =
              Inr (self\<lparr>ivar := Some (Float64 (replicate (arr_len (wavelength self)) PosInf))\<rparr>)"
      by (rule mask_keeps_non_finite[OF len refl]) simp
    ultimately show "Spectrum_calculate_ivar ex cfg self =
              (Inr (Float64 (replicate (arr_len (wavelength self)) PosInf)),
               cfg\<lparr>IVAR_INTERVALS := bounds\<rparr>) \<and>
            Spectrum_mask_dead_pixels
              (self\<lparr>ivar := Some (Float64 (replicate (arr_len (wavelength self)) PosInf))\<rparr>) =
              Inr (self\<lparr>ivar := Some (Float64 (replicate (arr_len (wavelength self)) PosInf))\<rparr>)"
      by simp
  qed
  show ?thesis using m ki kf all flat by blast
qed

theorem non_finite_ivar_survives_masking_witness:
  "arr_len (flux px) = 7 \<and> arr_len (wavelength px) = 7 \<and>
   Spectrum_mask_dead_pixels
     (px\<lparr>ivar := Some (Float64 [Finite 1, Finite 2, Finite 0, NaN, PosInf, Finite 0, Finite 3])\<rparr>) =
     Inr (px\<lparr>flux := Float64 (map Finite [10, 11, 13, 14, 16]),
              ivar := Some (Float64 [Finite 1, Finite 2, NaN, PosInf, Finite 3]),
              wavelength := Float64 (map Finite [4000, 4001, 4003, 4004, 4006])\<rparr>) \<and>
   arr_len (flux flat_pre) = 5 \<and> arr_len (wavelength flat_pre) = 5 \<and>
   map_of (data flat_pre) ''ivar'' = None \<and>
   window_bounds (lib_of flat_frame) sample_config flat_pre = Inr (Int64 [0, 10]) \<and>
   np_var (lib_of flat_frame)
     (continuum_window (lib_of flat_frame) flat_pre (NpInt 0) (NpInt 10)) = Finite 0 \<and>
   Spectrum_calculate_ivar (lib_of flat_frame) sample_config flat_pre =
     (Inr (Float64 [PosInf, PosInf, PosInf, PosInf, PosInf]), sample_config) \<and>
   Spectrum_mask_dead_pixels
     (flat_pre\<lparr>ivar := Some (Float64 [PosInf, PosInf, PosInf, PosInf, PosInf])\<rparr>) =
     Inr (flat_pre\<lparr>ivar := Some (Float64 [PosInf, PosInf, PosInf, PosInf, PosInf])\<rparr>)"
proof -
  let ?iv = "Float64 [Finite 1, Finite 2, Finite 0, NaN, PosInf, Finite 0, Finite 3]"
  let ?K = "{i. i < arr_len ?iv \<and>
                (case ?iv of Int64 ws \<Rightarrow> ws ! i \<noteq> 0 | Float64 xs \<Rightarrow> xs ! i \<noteq> Finite 0)}"
  have a1: "arr_len (flux px) = arr_len ?iv" by (simp add: px_def)
  have a2: "arr_len (wavelength px) = arr_len ?iv" by (simp add: px_def)
  have e1: "arr_nths (flux px) ?K = Float64 (map Finite [10, 11, 13, 14, 16])"
    by (simp add: px_def nths_Cons)
  have e2: "arr_nths ?iv ?K = Float64 [Finite 1, Finite 2, NaN, PosInf, Finite 3]"
    by (simp add: nths_Cons)
  have e3: "arr_nths (wavelength px) ?K = Float64 (map Finite [4000, 4001, 4003, 4004, 4006])"
    by (simp add: px_def nths_Cons)
  have a: "Spectrum_mask_dead_pixels (px\<lparr>ivar := Some ?iv\<rparr>) =
     Inr (px\<lparr>flux := Float64 (map Finite [10, 11, 13, 14, 16]),
              ivar := Some (Float64 [Finite 1, Finite 2, NaN, PosInf, Finite 3]),
              wavelength := Float64 (map Finite [4000, 4001, 4003, 4004, 4006])\<rparr>)"
    unfolding e1[symmetric] e2[symmetric] e3[symmetric]
    by (rule non_finite_ivar_survives_masking[OF a1 a2 refl, THEN conjunct1])
  let ?inf = "Float64 [PosInf, PosInf, PosInf, PosInf, PosInf]"
  have b1: "arr_len (flux flat_pre) = arr_len ?inf" by (simp add: flat_pre_def)
  have b2: "arr_len (wavelength flat_pre) = arr_len ?inf" by (simp add: flat_pre_def)
  have b3: "map_of (data flat_pre) ''ivar'' = None \<and>
            window_bounds (lib_of flat_frame) sample_config flat_pre = Inr (Int64 [0, 10]) \<and>
            arr_getitem (Int64 [0, 10]) 0 = Inr (NpInt 0) \<and>
            arr_getitem (Int64 [0, 10]) 1 = Inr (NpInt 10) \<and>
            np_var (lib_of flat_frame)
              (continuum_window (lib_of flat_frame) flat_pre (NpInt 0) (NpInt 10)) = Finite 0"
    by (simp add: flat_pre_def flat_frame_def window_bounds_def sample_config_def
        continuum_window_def lib_of_def nths_Cons to_double_def np_var_def np_sum_def
        exact_sum_def f_sub_def)
  note t = non_finite_ivar_survives_masking[OF b1 b2 refl, THEN conjunct2, THEN conjunct2,
      THEN conjunct2, THEN conjunct2, rule_format, OF b3]
  have b: "Spectrum_calculate_ivar (lib_of flat_frame) sample_config flat_pre =
             (Inr ?inf, sample_config)"
    using t[THEN conjunct1] by (simp add: flat_pre_def sample_config_def)
  have c: "Spectrum_mask_dead_pixels (flat_pre\<lparr>ivar := Some ?inf\<rparr>) =
             Inr (flat_pre\<lparr>ivar := Some ?inf\<rparr>)"
    using t[THEN conjunct2] by (simp add: flat_pre_def)
  show ?thesis using a1 a2 a b1 b2 b3 b c by simp
qed

end
